theory Spec2Isabelle
  imports Main
begin

section \<open>Values of the notebook\<close>

text \<open>
  The notebook \<^verbatim>\<open>amp_cn.ipynb\<close> sequences calls into the Paddle framework and measures
  wall-clock time. Its own code is the timing helper pair, the class \<^verbatim>\<open>SimpleNet\<close> and
  four training cells. The framework's numerics are not part of the notebook: a tensor is
  named here by the calls that produced it, a float by the clock readings it was computed
  from, and every call that leaves the notebook's code is recorded as an event of the run.
\<close>

datatype exn = TypeError | NameError | ValueError | FrameworkError nat

text \<open>
  \<open>Now k\<close> is the float returned by the \<^verbatim>\<open>time.time()\<close> call that is event number \<open>k\<close>
  of the run; \<open>Minus a b\<close> is the float \<^verbatim>\<open>a - b\<close>.
\<close>

datatype pyfloat = Now nat | Minus pyfloat pyfloat

text \<open>
  \<open>Linear k i j\<close> is the object made by the call \<^verbatim>\<open>nn.Linear(i, j)\<close> that is event \<open>k\<close>
  of the run, \<open>ReLU k\<close> the object made by the call \<^verbatim>\<open>nn.ReLU()\<close> that is event \<open>k\<close>.
\<close>

datatype layer = Linear nat nat nat | ReLU nat

text \<open>
  \<open>Randn s k\<close> is the \<open>k\<close>-th tensor drawn by \<^verbatim>\<open>paddle.randn(s)\<close>; \<open>Layer_out l x\<close> is
  what the layer \<open>l\<close> returns on \<open>x\<close>; \<open>MSE a b\<close> is \<^verbatim>\<open>mse(a, b)\<close>; \<open>Scaled s x\<close> is
  \<^verbatim>\<open>scaler.scale(x)\<close> for the scaler made by event \<open>s\<close>.
\<close>

datatype tensor =
    Randn "nat list" nat
  | Layer_out layer tensor
  | MSE tensor tensor
  | Scaled nat tensor

fun shape :: "tensor \<Rightarrow> nat list" where
  "shape (Randn s k) = s"
| "shape (Layer_out (Linear k i j) x) = butlast (shape x) @ [j]"
| "shape (Layer_out (ReLU k) x) = shape x"
| "shape (MSE a b) = [1]"
| "shape (Scaled s x) = shape x"

record simple_net =
  linear1 :: layer
  relu1 :: layer
  linear2 :: layer
  relu2 :: layer
  linear3 :: layer

text \<open>
  \<open>Decorated m\<close> and \<open>Decorated_opt p\<close> are the two results of \<^verbatim>\<open>paddle.amp.decorate\<close>
  called on the model \<open>m\<close> and the optimizer \<open>p\<close>; \<open>SGD k\<close> and \<open>GradScaler k\<close> are the
  objects made by event \<open>k\<close>.
\<close>

datatype model = SimpleNet simple_net | Decorated model

datatype optimizer = SGD nat | Decorated_opt optimizer

datatype scaler = GradScaler nat

fun net_of :: "model \<Rightarrow> simple_net" where
  "net_of (SimpleNet n) = n"
| "net_of (Decorated m) = net_of m"

fun scaler_id :: "scaler \<Rightarrow> nat" where
  "scaler_id (GradScaler k) = k"

text \<open>Keyword arguments, as the source writes them.\<close>

datatype arg =
    None_arg
  | True_arg
  | Str_arg string
  | Int_arg int
  | Float_arg string
  | Model_arg model
  | Opt_arg optimizer
  | Params_arg model

type_synonym kwargs = "(string \<times> arg) list"

text \<open>What a \<^verbatim>\<open>print\<close> call is given: a string, a formatted float, or a tensor.\<close>

datatype printed = Text string | Formatted string pyfloat | Tensor_repr tensor

datatype event =
    Time_read
  | Print printed
  | Layer_init
  | New_Linear nat nat
  | New_ReLU
  | Parameters model
  | New_SGD kwargs
  | New_GradScaler kwargs
  | Decorate kwargs
  | AutoCast_enter kwargs
  | AutoCast_exit
  | Model_call model tensor
  | Layer_call layer tensor
  | Mse_call tensor tensor
  | Scale scaler tensor
  | Backward tensor
  | Minimize scaler optimizer tensor
  | Step optimizer
  | Clear_grad optimizer

text \<open>
  The module state: the variable \<^verbatim>\<open>start_time\<close> (\<open>None\<close> is Python's \<^verbatim>\<open>None\<close>), the
  variable \<^verbatim>\<open>loss\<close> that the cells read after their loops (\<open>None\<close>: not bound yet), and
  the events of the run so far.
\<close>

record world =
  start_time :: "pyfloat option"
  loss_var :: "tensor option"
  trace :: "event list"

section \<open>Sequencing, exceptions and loops\<close>

text \<open>
  A statement maps the state to a result and the next state; a raised exception is the
  result \<open>Inl e\<close>. \<open>andthen\<close> is Python's sequencing: the second statement runs only when
  the first returned.
\<close>

definition ret :: "'a \<Rightarrow> 's \<Rightarrow> (exn + 'a) \<times> 's" where
  "ret v w = (Inr v, w)"

definition andthen ::
  "('s \<Rightarrow> (exn + 'a) \<times> 's) \<Rightarrow> ('a \<Rightarrow> 's \<Rightarrow> (exn + 'b) \<times> 's) \<Rightarrow> 's \<Rightarrow> (exn + 'b) \<times> 's" where
  "andthen m f w = (case m w of (Inl e, w') \<Rightarrow> (Inl e, w') | (Inr v, w') \<Rightarrow> f v w')"

text \<open>\<^verbatim>\<open>for x in xs: body\<close>\<close>

fun for_each :: "('a \<Rightarrow> 's \<Rightarrow> (exn + unit) \<times> 's) \<Rightarrow> 'a list \<Rightarrow> 's \<Rightarrow> (exn + unit) \<times> 's" where
  "for_each body [] w = (Inr (), w)"
| "for_each body (x # xs) w =
     (case body x w of (Inl e, w') \<Rightarrow> (Inl e, w') | (Inr u, w') \<Rightarrow> for_each body xs w')"

text \<open>
  A call into the framework. The framework \<open>F\<close> says, for the position of the call in the
  run and the call itself, whether it raises. The call is recorded either way.
\<close>

type_synonym framework = "nat \<Rightarrow> event \<Rightarrow> exn option"

definition fw_call :: "framework \<Rightarrow> event \<Rightarrow> 'a world_scheme \<Rightarrow> (exn + unit) \<times> 'a world_scheme" where
  "fw_call F ev w =
     (case F (length (trace w)) ev of
        None \<Rightarrow> (Inr (), w\<lparr>trace := trace w @ [ev]\<rparr>)
      | Some e \<Rightarrow> (Inl e, w\<lparr>trace := trace w @ [ev]\<rparr>))"

text \<open>A constructor call: the object is named by the position of the call.\<close>

definition fw_new ::
  "framework \<Rightarrow> event \<Rightarrow> (nat \<Rightarrow> 'b) \<Rightarrow> 'a world_scheme \<Rightarrow> (exn + 'b) \<times> 'a world_scheme" where
  "fw_new F ev mk w = andthen (fw_call F ev) (\<lambda>u. ret (mk (length (trace w)))) w"

definition no_raise :: framework where
  "no_raise k ev = None"

text \<open>
  \<^verbatim>\<open>with paddle.amp.auto_cast(...): body\<close>. Entering is a framework call. Leaving the
  scope restores the tracer's settings in a \<^verbatim>\<open>finally\<close> block: it happens on both paths
  and lets an exception of the body pass.
\<close>

definition autocast_exit :: "'a world_scheme \<Rightarrow> 'a world_scheme" where
  "autocast_exit w = w\<lparr>trace := trace w @ [AutoCast_exit]\<rparr>"

definition with_auto_cast ::
  "framework \<Rightarrow> kwargs \<Rightarrow> ('a world_scheme \<Rightarrow> (exn + 'b) \<times> 'a world_scheme)
     \<Rightarrow> 'a world_scheme \<Rightarrow> (exn + 'b) \<times> 'a world_scheme" where
  "with_auto_cast F kw body w =
     (case fw_call F (AutoCast_enter kw) w of
        (Inl e, w') \<Rightarrow> (Inl e, w')
      | (Inr u, w') \<Rightarrow>
          (case body w' of
             (Inl e, w'') \<Rightarrow> (Inl e, autocast_exit w'')
           | (Inr v, w'') \<Rightarrow> (Inr v, autocast_exit w'')))"

section \<open>The timing helpers (cell 5)\<close>

text \<open>
  \<^verbatim>\<open>
  start_time = None

  def start_timer():
      global start_time
      start_time = time.time()

  def end_timer_and_print(msg):
      end_time = time.time()
      print("\n" + msg)
      print("... = {:.3f} sec".format(end_time - start_time))
  \<close>
  \<^verbatim>\<open>time.time()\<close> and \<^verbatim>\<open>print\<close> are builtins and are taken not to fail. Strings are given
  by their UTF-8 bytes.
\<close>

definition timer_cell :: "'a world_scheme \<Rightarrow> (exn + unit) \<times> 'a world_scheme" where
  "timer_cell w = (Inr (), w\<lparr>start_time := None\<rparr>)"

definition time_time :: "'a world_scheme \<Rightarrow> (exn + pyfloat) \<times> 'a world_scheme" where
  "time_time w = (Inr (Now (length (trace w))), w\<lparr>trace := trace w @ [Time_read]\<rparr>)"

definition print_out :: "printed \<Rightarrow> 'a world_scheme \<Rightarrow> (exn + unit) \<times> 'a world_scheme" where
  "print_out x w = (Inr (), w\<lparr>trace := trace w @ [Print x]\<rparr>)"

text \<open>\<^verbatim>\<open>a - b\<close> for a float \<open>a\<close> and the value of \<^verbatim>\<open>start_time\<close>.\<close>

fun float_sub :: "pyfloat \<Rightarrow> pyfloat option \<Rightarrow> 's \<Rightarrow> (exn + pyfloat) \<times> 's" where
  "float_sub a None w = (Inl TypeError, w)"
| "float_sub a (Some b) w = (Inr (Minus a b), w)"

definition elapsed_fmt :: string where
  "elapsed_fmt =
     [CHR 0xE5, CHR 0x85, CHR 0xB1, CHR 0xE8, CHR 0xAE, CHR 0xA1,
      CHR 0xE8, CHR 0x80, CHR 0x97, CHR 0xE6, CHR 0x97, CHR 0xB6] @ '' = {:.3f} sec''"

definition start_timer :: "'a world_scheme \<Rightarrow> (exn + unit) \<times> 'a world_scheme" where
  "start_timer =
     andthen time_time (\<lambda>t w. (Inr (), w\<lparr>start_time := Some t\<rparr>))"

definition end_timer_and_print :: "string \<Rightarrow> 'a world_scheme \<Rightarrow> (exn + unit) \<times> 'a world_scheme" where
  "end_timer_and_print msg =
     andthen time_time (\<lambda>end_time.
     andthen (print_out (Text (CHR 0x0A # msg))) (\<lambda>u.
     andthen (\<lambda>w. float_sub end_time (start_time w) w) (\<lambda>d.
     print_out (Formatted elapsed_fmt d))))"

section \<open>The network (cell 7)\<close>

text \<open>
  A layer call is a framework call. A \<^verbatim>\<open>Linear\<close> layer multiplies by a weight of shape
  \<open>[in_features, out_features]\<close>: it raises unless the last dimension of its input is
  \<open>in_features\<close>.
\<close>

fun layer_result :: "layer \<Rightarrow> tensor \<Rightarrow> 's \<Rightarrow> (exn + tensor) \<times> 's" where
  "layer_result (Linear k i j) x w =
     (if shape x \<noteq> [] \<and> last (shape x) = i then (Inr (Layer_out (Linear k i j) x), w)
      else (Inl ValueError, w))"
| "layer_result (ReLU k) x w = (Inr (Layer_out (ReLU k) x), w)"

definition call_layer ::
  "framework \<Rightarrow> layer \<Rightarrow> tensor \<Rightarrow> 'a world_scheme \<Rightarrow> (exn + tensor) \<times> 'a world_scheme" where
  "call_layer F l x = andthen (fw_call F (Layer_call l x)) (\<lambda>u. layer_result l x)"

text \<open>
  \<^verbatim>\<open>
  def __init__(self, input_size, output_size):
      super(SimpleNet, self).__init__()
      self.linear1 = nn.Linear(input_size, output_size)
      self.relu1 = nn.ReLU()
      self.linear2 = nn.Linear(input_size, output_size)
      self.relu2 = nn.ReLU()
      self.linear3 = nn.Linear(input_size, output_size)
  \<close>
\<close>

definition SimpleNet_init ::
  "framework \<Rightarrow> nat \<Rightarrow> nat \<Rightarrow> 'a world_scheme \<Rightarrow> (exn + simple_net) \<times> 'a world_scheme" where
  "SimpleNet_init F input_size output_size =
     andthen (fw_call F Layer_init) (\<lambda>u.
     andthen (fw_new F (New_Linear input_size output_size) (\<lambda>k. Linear k input_size output_size)) (\<lambda>l1.
     andthen (fw_new F New_ReLU ReLU) (\<lambda>r1.
     andthen (fw_new F (New_Linear input_size output_size) (\<lambda>k. Linear k input_size output_size)) (\<lambda>l2.
     andthen (fw_new F New_ReLU ReLU) (\<lambda>r2.
     andthen (fw_new F (New_Linear input_size output_size) (\<lambda>k. Linear k input_size output_size)) (\<lambda>l3.
     ret \<lparr>linear1 = l1, relu1 = r1, linear2 = l2, relu2 = r2, linear3 = l3\<rparr>))))))"

text \<open>
  \<^verbatim>\<open>
  def forward(self, x):
      x = self.linear1(x)
      x = self.relu1(x)
      x = self.linear2(x)
      x = self.relu2(x)
      x = self.linear3(x)
      return x
  \<close>
\<close>

definition forward ::
  "framework \<Rightarrow> simple_net \<Rightarrow> tensor \<Rightarrow> 'a world_scheme \<Rightarrow> (exn + tensor) \<times> 'a world_scheme" where
  "forward F self x =
     andthen (call_layer F (linear1 self) x) (\<lambda>x.
     andthen (call_layer F (relu1 self) x) (\<lambda>x.
     andthen (call_layer F (linear2 self) x) (\<lambda>x.
     andthen (call_layer F (relu2 self) x) (\<lambda>x.
     andthen (call_layer F (linear3 self) x) (\<lambda>x.
     ret x)))))"

section \<open>Parameters and data (cell 9)\<close>

text \<open>
  \<^verbatim>\<open>
  epochs = 5
  input_size = 4096
  output_size = 4096
  batch_size = 512
  nums_batch = 50
  train_data = [paddle.randn((batch_size, input_size)) for _ in range(nums_batch)]
  labels = [paddle.randn((batch_size, output_size)) for _ in range(nums_batch)]
  mse = paddle.nn.MSELoss()
  \<close>
  The training cells read these module variables; they are gathered in a record so that a
  cell can also be run on a smaller setting.
\<close>

record params =
  epochs :: nat
  input_size :: nat
  output_size :: nat
  train_data :: "tensor list"
  labels :: "tensor list"

definition batch_size :: nat where
  "batch_size = 512"

definition nums_batch :: nat where
  "nums_batch = 50"

definition script :: params where
  "script =
     \<lparr>epochs = 5, input_size = 4096, output_size = 4096,
      train_data = map (\<lambda>k. Randn [batch_size, 4096] k) [0..<nums_batch],
      labels = map (\<lambda>k. Randn [batch_size, 4096] (nums_batch + k)) [0..<nums_batch]\<rparr>"

section \<open>Framework calls of the training cells\<close>

text \<open>\<^verbatim>\<open>model = SimpleNet(input_size, output_size)\<close>\<close>

definition new_SimpleNet ::
  "framework \<Rightarrow> nat \<Rightarrow> nat \<Rightarrow> world \<Rightarrow> (exn + model) \<times> world" where
  "new_SimpleNet F i j = andthen (SimpleNet_init F i j) (\<lambda>n. ret (SimpleNet n))"

text \<open>
  \<^verbatim>\<open>optimizer = paddle.optimizer.SGD(learning_rate=0.0001, parameters=model.parameters())\<close>
\<close>

definition new_SGD :: "framework \<Rightarrow> model \<Rightarrow> world \<Rightarrow> (exn + optimizer) \<times> world" where
  "new_SGD F model =
     andthen (fw_call F (Parameters model)) (\<lambda>u.
     fw_new F (New_SGD [(''learning_rate'', Float_arg ''0.0001''), (''parameters'', Params_arg model)]) SGD)"

text \<open>\<^verbatim>\<open>scaler = paddle.amp.GradScaler(init_loss_scaling=1024)\<close>\<close>

definition new_GradScaler :: "framework \<Rightarrow> world \<Rightarrow> (exn + scaler) \<times> world" where
  "new_GradScaler F = fw_new F (New_GradScaler [(''init_loss_scaling'', Int_arg 1024)]) GradScaler"

text \<open>
  \<^verbatim>\<open>model(data)\<close>: the framework's \<^verbatim>\<open>Layer.__call__\<close>, which runs \<^verbatim>\<open>forward\<close>. A
  decorated model is the same network.
\<close>

definition call_model :: "framework \<Rightarrow> model \<Rightarrow> tensor \<Rightarrow> world \<Rightarrow> (exn + tensor) \<times> world" where
  "call_model F model data =
     andthen (fw_call F (Model_call model data)) (\<lambda>u. forward F (net_of model) data)"

text \<open>\<^verbatim>\<open>loss = mse(output, label)\<close>: the call, then the assignment to the module variable.\<close>

definition mse :: "framework \<Rightarrow> tensor \<Rightarrow> tensor \<Rightarrow> world \<Rightarrow> (exn + tensor) \<times> world" where
  "mse F a b = andthen (fw_call F (Mse_call a b)) (\<lambda>u. ret (MSE a b))"

definition assign_loss :: "tensor \<Rightarrow> world \<Rightarrow> (exn + unit) \<times> world" where
  "assign_loss v w = (Inr (), w\<lparr>loss_var := Some v\<rparr>)"

text \<open>\<^verbatim>\<open>scaled = scaler.scale(loss)\<close>\<close>

definition scale :: "framework \<Rightarrow> scaler \<Rightarrow> tensor \<Rightarrow> world \<Rightarrow> (exn + tensor) \<times> world" where
  "scale F scaler v =
     andthen (fw_call F (Scale scaler v)) (\<lambda>u. ret (Scaled (scaler_id scaler) v))"

text \<open>\<^verbatim>\<open>print(loss)\<close>: reading a name that was never bound raises \<^verbatim>\<open>NameError\<close>.\<close>

definition print_loss :: "world \<Rightarrow> (exn + unit) \<times> world" where
  "print_loss w =
     (case loss_var w of None \<Rightarrow> (Inl NameError, w) | Some v \<Rightarrow> print_out (Tensor_repr v) w)"

definition msg_default :: string where
  "msg_default = [CHR 0xE9, CHR 0xBB, CHR 0x98, CHR 0xE8, CHR 0xAE, CHR 0xA4, CHR 0xE8, CHR 0x80, CHR 0x97, CHR 0xE6, CHR 0x97, CHR 0xB6] @ '':''"

definition msg_o1 :: string where
  "msg_o1 = [CHR 0xE4, CHR 0xBD, CHR 0xBF, CHR 0xE7, CHR 0x94, CHR 0xA8] @ ''AMP-O1'' @ [CHR 0xE6, CHR 0xA8, CHR 0xA1, CHR 0xE5, CHR 0xBC, CHR 0x8F, CHR 0xE8, CHR 0x80, CHR 0x97, CHR 0xE6, CHR 0x97, CHR 0xB6] @ '':''"

definition msg_o2 :: string where
  "msg_o2 = [CHR 0xE4, CHR 0xBD, CHR 0xBF, CHR 0xE7, CHR 0x94, CHR 0xA8] @ ''AMP-O2'' @ [CHR 0xE6, CHR 0xA8, CHR 0xA1, CHR 0xE5, CHR 0xBC, CHR 0x8F, CHR 0xE8, CHR 0x80, CHR 0x97, CHR 0xE6, CHR 0x97, CHR 0xB6] @ '':''"

definition msg_amp :: string where
  "msg_amp = [CHR 0xE4, CHR 0xBD, CHR 0xBF, CHR 0xE7, CHR 0x94, CHR 0xA8] @ ''AMP'' @ [CHR 0xE6, CHR 0xA8, CHR 0xA1, CHR 0xE5, CHR 0xBC, CHR 0x8F, CHR 0xE8, CHR 0x80, CHR 0x97, CHR 0xE6, CHR 0x97, CHR 0xB6] @ '':''"

section \<open>The baseline training cell (cell 11)\<close>

text \<open>
  \<^verbatim>\<open>
  model = SimpleNet(input_size, output_size)
  optimizer = paddle.optimizer.SGD(learning_rate=0.0001, parameters=model.parameters())
  start_timer()
  for epoch in range(epochs):
      datas = zip(train_data, labels)
      for i, (data, label) in enumerate(datas):
          output = model(data)
          loss = mse(output, label)
          loss.backward()
          optimizer.step()
          optimizer.clear_grad()
  print(loss)
  end_timer_and_print("...")
  \<close>
\<close>

definition baseline_body ::
  "framework \<Rightarrow> model \<Rightarrow> optimizer \<Rightarrow> nat \<times> tensor \<times> tensor \<Rightarrow> world \<Rightarrow> (exn + unit) \<times> world" where
  "baseline_body F model optimizer = (\<lambda>(i, (data, label)).
     andthen (call_model F model data) (\<lambda>output.
     andthen (mse F output label) (\<lambda>loss.
     andthen (assign_loss loss) (\<lambda>u.
     andthen (fw_call F (Backward loss)) (\<lambda>u.
     andthen (fw_call F (Step optimizer)) (\<lambda>u.
     fw_call F (Clear_grad optimizer)))))))"

definition baseline_loop ::
  "framework \<Rightarrow> params \<Rightarrow> model \<Rightarrow> optimizer \<Rightarrow> world \<Rightarrow> (exn + unit) \<times> world" where
  "baseline_loop F p model optimizer =
     for_each (\<lambda>epoch.
       for_each (baseline_body F model optimizer) (enumerate 0 (zip (train_data p) (labels p))))
       [0..<epochs p]"

definition baseline_cell :: "framework \<Rightarrow> params \<Rightarrow> world \<Rightarrow> (exn + unit) \<times> world" where
  "baseline_cell F p =
     andthen (new_SimpleNet F (input_size p) (output_size p)) (\<lambda>model.
     andthen (new_SGD F model) (\<lambda>optimizer.
     andthen start_timer (\<lambda>u.
     andthen (baseline_loop F p model optimizer) (\<lambda>u.
     andthen print_loss (\<lambda>u.
     end_timer_and_print msg_default)))))"

section \<open>The AMP cells (cells 13, 15 and 17)\<close>

text \<open>
  The loop body of the O1 cell:
  \<^verbatim>\<open>
  with paddle.amp.auto_cast():
      output = model(data)
      loss = mse(output, label)
  scaled = scaler.scale(loss)
  scaled.backward()
  scaler.minimize(optimizer, scaled)
  optimizer.clear_grad()
  \<close>
\<close>

definition o1_body ::
  "framework \<Rightarrow> model \<Rightarrow> optimizer \<Rightarrow> scaler \<Rightarrow> nat \<times> tensor \<times> tensor \<Rightarrow> world \<Rightarrow> (exn + unit) \<times> world" where
  "o1_body F model optimizer scaler = (\<lambda>(i, (data, label)).
     andthen (with_auto_cast F []
       (andthen (call_model F model data) (\<lambda>output.
        andthen (mse F output label) (\<lambda>loss.
        andthen (assign_loss loss) (\<lambda>u. ret loss))))) (\<lambda>loss.
     andthen (scale F scaler loss) (\<lambda>scaled.
     andthen (fw_call F (Backward scaled)) (\<lambda>u.
     andthen (fw_call F (Minimize scaler optimizer scaled)) (\<lambda>u.
     fw_call F (Clear_grad optimizer))))))"

definition o1_loop ::
  "framework \<Rightarrow> params \<Rightarrow> model \<Rightarrow> optimizer \<Rightarrow> scaler \<Rightarrow> world \<Rightarrow> (exn + unit) \<times> world" where
  "o1_loop F p model optimizer scaler =
     for_each (\<lambda>epoch.
       for_each (o1_body F model optimizer scaler) (enumerate 0 (zip (train_data p) (labels p))))
       [0..<epochs p]"

definition o1_cell :: "framework \<Rightarrow> params \<Rightarrow> world \<Rightarrow> (exn + unit) \<times> world" where
  "o1_cell F p =
     andthen (new_SimpleNet F (input_size p) (output_size p)) (\<lambda>model.
     andthen (new_SGD F model) (\<lambda>optimizer.
     andthen (new_GradScaler F) (\<lambda>scaler.
     andthen start_timer (\<lambda>u.
     andthen (o1_loop F p model optimizer scaler) (\<lambda>u.
     andthen print_loss (\<lambda>u.
     end_timer_and_print msg_o1))))))"

text \<open>
  The O2 cell decorates first:
  \<^verbatim>\<open>
  model, optimizer = paddle.amp.decorate(models=model, optimizers=optimizer, level='O2',
                                         master_weight=None, save_dtype=None)
  \<close>
  and its loop body opens the scope with
  \<^verbatim>\<open>
  with paddle.amp.auto_cast(enable=True, custom_white_list=None, custom_black_list=None,
                            level='O2'):
  \<close>
\<close>

definition decorate ::
  "framework \<Rightarrow> model \<Rightarrow> optimizer \<Rightarrow> world \<Rightarrow> (exn + model \<times> optimizer) \<times> world" where
  "decorate F model optimizer =
     andthen (fw_call F (Decorate
        [(''models'', Model_arg model), (''optimizers'', Opt_arg optimizer),
         (''level'', Str_arg ''O2''), (''master_weight'', None_arg), (''save_dtype'', None_arg)])) (\<lambda>u.
     ret (Decorated model, Decorated_opt optimizer))"

definition o2_kwargs :: kwargs where
  "o2_kwargs =
     [(''enable'', True_arg), (''custom_white_list'', None_arg),
      (''custom_black_list'', None_arg), (''level'', Str_arg ''O2'')]"

definition o2_body ::
  "framework \<Rightarrow> model \<Rightarrow> optimizer \<Rightarrow> scaler \<Rightarrow> nat \<times> tensor \<times> tensor \<Rightarrow> world \<Rightarrow> (exn + unit) \<times> world" where
  "o2_body F model optimizer scaler = (\<lambda>(i, (data, label)).
     andthen (with_auto_cast F o2_kwargs
       (andthen (call_model F model data) (\<lambda>output.
        andthen (mse F output label) (\<lambda>loss.
        andthen (assign_loss loss) (\<lambda>u. ret loss))))) (\<lambda>loss.
     andthen (scale F scaler loss) (\<lambda>scaled.
     andthen (fw_call F (Backward scaled)) (\<lambda>u.
     andthen (fw_call F (Minimize scaler optimizer scaled)) (\<lambda>u.
     fw_call F (Clear_grad optimizer))))))"

definition o2_loop ::
  "framework \<Rightarrow> params \<Rightarrow> model \<Rightarrow> optimizer \<Rightarrow> scaler \<Rightarrow> world \<Rightarrow> (exn + unit) \<times> world" where
  "o2_loop F p model optimizer scaler =
     for_each (\<lambda>epoch.
       for_each (o2_body F model optimizer scaler) (enumerate 0 (zip (train_data p) (labels p))))
       [0..<epochs p]"

definition o2_cell :: "framework \<Rightarrow> params \<Rightarrow> world \<Rightarrow> (exn + unit) \<times> world" where
  "o2_cell F p =
     andthen (new_SimpleNet F (input_size p) (output_size p)) (\<lambda>model.
     andthen (new_SGD F model) (\<lambda>optimizer.
     andthen (new_GradScaler F) (\<lambda>scaler.
     andthen (decorate F model optimizer) (\<lambda>(model, optimizer).
     andthen start_timer (\<lambda>u.
     andthen (o2_loop F p model optimizer scaler) (\<lambda>u.
     andthen print_loss (\<lambda>u.
     end_timer_and_print msg_o2)))))))"

text \<open>
  The gradient-accumulation cell sets \<^verbatim>\<open>accumulate_batchs_num = 10\<close> and guards the update:
  \<^verbatim>\<open>
  with paddle.amp.auto_cast():
      output = model(data)
      loss = mse(output, label)
  scaled = scaler.scale(loss)
  scaled.backward()
  if (i + 1) % accumulate_batchs_num == 0:
      scaler.minimize(optimizer, scaled)
      optimizer.clear_grad()
  \<close>
\<close>

definition accumulate_batchs_num :: nat where
  "accumulate_batchs_num = 10"

definition accum_body ::
  "framework \<Rightarrow> model \<Rightarrow> optimizer \<Rightarrow> scaler \<Rightarrow> nat \<times> tensor \<times> tensor \<Rightarrow> world \<Rightarrow> (exn + unit) \<times> world" where
  "accum_body F model optimizer scaler = (\<lambda>(i, (data, label)).
     andthen (with_auto_cast F []
       (andthen (call_model F model data) (\<lambda>output.
        andthen (mse F output label) (\<lambda>loss.
        andthen (assign_loss loss) (\<lambda>u. ret loss))))) (\<lambda>loss.
     andthen (scale F scaler loss) (\<lambda>scaled.
     andthen (fw_call F (Backward scaled)) (\<lambda>u.
     if (i + 1) mod accumulate_batchs_num = 0 then
       andthen (fw_call F (Minimize scaler optimizer scaled)) (\<lambda>u.
       fw_call F (Clear_grad optimizer))
     else ret ()))))"

definition accum_loop ::
  "framework \<Rightarrow> params \<Rightarrow> model \<Rightarrow> optimizer \<Rightarrow> scaler \<Rightarrow> world \<Rightarrow> (exn + unit) \<times> world" where
  "accum_loop F p model optimizer scaler =
     for_each (\<lambda>epoch.
       for_each (accum_body F model optimizer scaler) (enumerate 0 (zip (train_data p) (labels p))))
       [0..<epochs p]"

definition accum_cell :: "framework \<Rightarrow> params \<Rightarrow> world \<Rightarrow> (exn + unit) \<times> world" where
  "accum_cell F p =
     andthen (new_SimpleNet F (input_size p) (output_size p)) (\<lambda>model.
     andthen (new_SGD F model) (\<lambda>optimizer.
     andthen (new_GradScaler F) (\<lambda>scaler.
     andthen start_timer (\<lambda>u.
     andthen (accum_loop F p model optimizer scaler) (\<lambda>u.
     andthen print_loss (\<lambda>u.
     end_timer_and_print msg_amp))))))"

section \<open>Runs of the timing helpers\<close>

text \<open>
  A caller of the helper pair: any sequence of calls of \<^verbatim>\<open>start_timer()\<close> and
  \<^verbatim>\<open>end_timer_and_print(msg)\<close>, run in order.
\<close>

datatype timer_call = Start_timer | End_timer string

fun do_timer_call :: "timer_call \<Rightarrow> 'a world_scheme \<Rightarrow> (exn + unit) \<times> 'a world_scheme" where
  "do_timer_call Start_timer = start_timer"
| "do_timer_call (End_timer msg) = end_timer_and_print msg"

definition timer_calls :: "timer_call list \<Rightarrow> 'a world_scheme \<Rightarrow> (exn + unit) \<times> 'a world_scheme" where
  "timer_calls cs = for_each do_timer_call cs"

section \<open>Specification of the network\<close>

text \<open>
  \<open>kcomp g f\<close> is the Python expression \<^verbatim>\<open>g(f(x))\<close> as a function of \<open>x\<close>: \<open>f\<close> is called
  first, and \<open>g\<close> on what it returns.
\<close>

definition kcomp ::
  "('b \<Rightarrow> 's \<Rightarrow> (exn + 'c) \<times> 's) \<Rightarrow> ('a \<Rightarrow> 's \<Rightarrow> (exn + 'b) \<times> 's) \<Rightarrow> 'a \<Rightarrow> 's \<Rightarrow> (exn + 'c) \<times> 's" where
  "kcomp g f x = andthen (f x) g"

text \<open>The value and the layer calls of a forward pass in which every layer returns.\<close>

definition forward_value :: "simple_net \<Rightarrow> tensor \<Rightarrow> tensor" where
  "forward_value self x =
     Layer_out (linear3 self) (Layer_out (relu2 self) (Layer_out (linear2 self)
       (Layer_out (relu1 self) (Layer_out (linear1 self) x))))"

definition forward_calls :: "simple_net \<Rightarrow> tensor \<Rightarrow> event list" where
  "forward_calls self x =
     [Layer_call (linear1 self) x,
      Layer_call (relu1 self) (Layer_out (linear1 self) x),
      Layer_call (linear2 self) (Layer_out (relu1 self) (Layer_out (linear1 self) x)),
      Layer_call (relu2 self) (Layer_out (linear2 self) (Layer_out (relu1 self) (Layer_out (linear1 self) x))),
      Layer_call (linear3 self) (Layer_out (relu2 self) (Layer_out (linear2 self)
        (Layer_out (relu1 self) (Layer_out (linear1 self) x))))]"

text \<open>A layer accepts a tensor when its shape check passes.\<close>

fun accepts :: "layer \<Rightarrow> tensor \<Rightarrow> bool" where
  "accepts (Linear k i j) x = (shape x \<noteq> [] \<and> last (shape x) = i)"
| "accepts (ReLU k) x = True"

definition well_shaped :: "simple_net \<Rightarrow> tensor \<Rightarrow> bool" where
  "well_shaped self x =
     (accepts (linear1 self) x \<and>
      accepts (relu1 self) (Layer_out (linear1 self) x) \<and>
      accepts (linear2 self) (Layer_out (relu1 self) (Layer_out (linear1 self) x)) \<and>
      accepts (relu2 self) (Layer_out (linear2 self) (Layer_out (relu1 self) (Layer_out (linear1 self) x))) \<and>
      accepts (linear3 self) (Layer_out (relu2 self) (Layer_out (linear2 self)
        (Layer_out (relu1 self) (Layer_out (linear1 self) x)))))"

text \<open>
  The network that \<^verbatim>\<open>SimpleNet(i, j)\<close> builds when its first call is event \<open>n\<close> of the run,
  and the calls it makes.
\<close>

definition net_at :: "nat \<Rightarrow> nat \<Rightarrow> nat \<Rightarrow> simple_net" where
  "net_at n i j =
     \<lparr>linear1 = Linear (n + 1) i j, relu1 = ReLU (n + 2), linear2 = Linear (n + 3) i j,
      relu2 = ReLU (n + 4), linear3 = Linear (n + 5) i j\<rparr>"

definition init_calls :: "nat \<Rightarrow> nat \<Rightarrow> event list" where
  "init_calls i j =
     [Layer_init, New_Linear i j, New_ReLU, New_Linear i j, New_ReLU, New_Linear i j]"

section \<open>Specification of the training cells\<close>

text \<open>The loss of a batch, and the calls of one iteration of the baseline loop.\<close>

definition loss_of :: "model \<Rightarrow> tensor \<times> tensor \<Rightarrow> tensor" where
  "loss_of model = (\<lambda>(data, label). MSE (forward_value (net_of model) data) label)"

definition baseline_events :: "model \<Rightarrow> optimizer \<Rightarrow> tensor \<times> tensor \<Rightarrow> event list" where
  "baseline_events model optimizer = (\<lambda>(data, label).
     [Model_call model data] @ forward_calls (net_of model) data @
     [Mse_call (forward_value (net_of model) data) label,
      Backward (loss_of model (data, label)),
      Step optimizer,
      Clear_grad optimizer])"

text \<open>
  The calls of one iteration of an AMP loop: the scope with the forward pass and the loss
  inside, then scale and backward on the scaled loss, then (when \<open>update\<close>) minimize and
  clear_grad.
\<close>

definition amp_events ::
  "kwargs \<Rightarrow> model \<Rightarrow> optimizer \<Rightarrow> scaler \<Rightarrow> bool \<Rightarrow> tensor \<times> tensor \<Rightarrow> event list" where
  "amp_events kw model optimizer scaler update = (\<lambda>(data, label).
     [AutoCast_enter kw, Model_call model data] @ forward_calls (net_of model) data @
     [Mse_call (forward_value (net_of model) data) label,
      AutoCast_exit,
      Scale scaler (loss_of model (data, label)),
      Backward (Scaled (scaler_id scaler) (loss_of model (data, label)))] @
     (if update then
        [Minimize scaler optimizer (Scaled (scaler_id scaler) (loss_of model (data, label))),
         Clear_grad optimizer]
      else []))"

text \<open>The calls that build the optimizer, the scaler and the decorated pair.\<close>

definition sgd_calls :: "model \<Rightarrow> event list" where
  "sgd_calls model =
     [Parameters model,
      New_SGD [(''learning_rate'', Float_arg ''0.0001''), (''parameters'', Params_arg model)]]"

definition scaler_calls :: "event list" where
  "scaler_calls = [New_GradScaler [(''init_loss_scaling'', Int_arg 1024)]]"

definition decorate_calls :: "model \<Rightarrow> optimizer \<Rightarrow> event list" where
  "decorate_calls model optimizer =
     [Decorate
        [(''models'', Model_arg model), (''optimizers'', Opt_arg optimizer),
         (''level'', Str_arg ''O2''), (''master_weight'', None_arg), (''save_dtype'', None_arg)]]"

text \<open>
  What a cell does after its loop: \<^verbatim>\<open>print(loss)\<close>, then the three events of
  \<^verbatim>\<open>end_timer_and_print(msg)\<close>, whose clock reading is event \<open>k + 1\<close> of the run when the
  print of the loss is event \<open>k\<close>; \<open>t0\<close> is the stored start time.
\<close>

definition closing_events :: "tensor \<Rightarrow> string \<Rightarrow> nat \<Rightarrow> pyfloat \<Rightarrow> event list" where
  "closing_events v msg k t0 =
     [Print (Tensor_repr v),
      Time_read,
      Print (Text (CHR 0x0A # msg)),
      Print (Formatted elapsed_fmt (Minus (Now (k + 1)) t0))]"

text \<open>
  A setting in which every forward pass is shape-correct and the loops run at least once:
  equal sizes, every batch with last dimension \<open>input_size\<close>, at least one epoch and one
  batch.
\<close>

definition fits :: "params \<Rightarrow> bool" where
  "fits p =
     (input_size p = output_size p \<and>
      list_all (\<lambda>d. shape d \<noteq> [] \<and> last (shape d) = input_size p) (train_data p) \<and>
      train_data p \<noteq> [] \<and> labels p \<noteq> [] \<and> 0 < epochs p)"

section \<open>Specification of failures\<close>

text \<open>
  \<^verbatim>\<open>time.time()\<close>, \<^verbatim>\<open>print\<close> and leaving the auto-cast scope are not subject to the
  framework's verdict. Every other event is a framework call; it raises what the
  framework says, and a layer call also raises the shape error when the layer does not
  accept its input.
\<close>

fun builtin :: "event \<Rightarrow> bool" where
  "builtin Time_read = True"
| "builtin (Print x) = True"
| "builtin AutoCast_exit = True"
| "builtin ev = False"

fun contract :: "event \<Rightarrow> exn option" where
  "contract (Layer_call l x) = (if accepts l x then None else Some ValueError)"
| "contract ev = None"

definition verdict :: "framework \<Rightarrow> nat \<Rightarrow> event \<Rightarrow> exn option" where
  "verdict F k ev =
     (if builtin ev then None
      else case F k ev of Some e \<Rightarrow> Some e | None \<Rightarrow> contract ev)"

text \<open>
  \<open>clean F k es\<close>: none of the events \<open>es\<close>, at positions \<open>k\<close> onwards, raised.
  \<open>stops F k es e\<close>: the events are clean up to one that raised \<open>e\<close>, and after it the
  run only left auto-cast scopes.
\<close>

fun clean :: "framework \<Rightarrow> nat \<Rightarrow> event list \<Rightarrow> bool" where
  "clean F k [] = True"
| "clean F k (ev # es) = (verdict F k ev = None \<and> clean F (Suc k) es)"

fun stops :: "framework \<Rightarrow> nat \<Rightarrow> event list \<Rightarrow> exn \<Rightarrow> bool" where
  "stops F k [] e = False"
| "stops F k (ev # es) e =
     (case verdict F k ev of
        None \<Rightarrow> stops F (Suc k) es e
      | Some e' \<Rightarrow> e' = e \<and> list_all (\<lambda>x. x = AutoCast_exit) es)"

text \<open>
  The exceptions that the interpreter itself raises in the notebook's code: \<^verbatim>\<open>TypeError\<close> at
  the subtraction of \<^verbatim>\<open>None\<close>, \<^verbatim>\<open>NameError\<close> at the read of an unbound \<^verbatim>\<open>loss\<close>.
\<close>

fun interpreter_error :: "exn \<Rightarrow> bool" where
  "interpreter_error TypeError = True"
| "interpreter_error NameError = True"
| "interpreter_error e = False"

text \<open>
  \<open>outcome_ok F P A w (r, w')\<close>: a statement started in \<open>w\<close> ended with result \<open>r\<close> in
  \<open>w'\<close>; it only added events, each of them satisfies \<open>P\<close>, and
  \<^item> if it returned, no call raised;
  \<^item> if it raised \<open>e\<close>, then either a call raised exactly \<open>e\<close> and nothing but leaving
    scopes happened afterwards, or no call raised and \<open>e\<close> is one of the exceptions \<open>A\<close>
    that the interpreter raises in the statement.
  \<open>fail_stop F P A p\<close>: this holds for the statement \<open>p\<close> from every state.
\<close>

definition new_events :: "'a world_scheme \<Rightarrow> 'a world_scheme \<Rightarrow> event list" where
  "new_events w w' = drop (length (trace w)) (trace w')"

definition outcome_ok ::
  "framework \<Rightarrow> (event \<Rightarrow> bool) \<Rightarrow> (exn \<Rightarrow> bool) \<Rightarrow> 'a world_scheme
     \<Rightarrow> (exn + 'b) \<times> 'a world_scheme \<Rightarrow> bool" where
  "outcome_ok F P A w rw =
     (case rw of (r, w') \<Rightarrow>
        take (length (trace w)) (trace w') = trace w \<and>
        list_all P (new_events w w') \<and>
        (case r of
           Inr v \<Rightarrow> clean F (length (trace w)) (new_events w w')
         | Inl e \<Rightarrow>
             stops F (length (trace w)) (new_events w w') e \<or>
             (A e \<and> clean F (length (trace w)) (new_events w w'))))"

definition fail_stop ::
  "framework \<Rightarrow> (event \<Rightarrow> bool) \<Rightarrow> (exn \<Rightarrow> bool)
     \<Rightarrow> ('a world_scheme \<Rightarrow> (exn + 'b) \<times> 'a world_scheme) \<Rightarrow> bool" where
  "fail_stop F P A p = (\<forall>w. outcome_ok F P A w (p w))"

text \<open>Kinds of events and tensors that the specification singles out.\<close>

fun is_backward :: "event \<Rightarrow> bool" where
  "is_backward (Backward t) = True"
| "is_backward ev = False"

fun is_decorate :: "event \<Rightarrow> bool" where
  "is_decorate (Decorate kw) = True"
| "is_decorate ev = False"

fun is_minimize :: "event \<Rightarrow> bool" where
  "is_minimize (Minimize s opt t) = True"
| "is_minimize ev = False"

fun is_print :: "event \<Rightarrow> bool" where
  "is_print (Print x) = True"
| "is_print ev = False"

fun is_scaled :: "tensor \<Rightarrow> bool" where
  "is_scaled (Scaled s t) = True"
| "is_scaled t = False"

text \<open>Backward only on a scaled tensor.\<close>

fun backward_scaled :: "event \<Rightarrow> bool" where
  "backward_scaled (Backward t) = is_scaled t"
| "backward_scaled ev = True"

text \<open>
  The steps of gradient accumulation in a run: scale, backward, minimize and clear_grad,
  in the order of their events; every other event is left out.
\<close>

datatype step = Scale_step | Backward_step | Minimize_step | Clear_step

fun step_of :: "event \<Rightarrow> step list" where
  "step_of (Scale s t) = [Scale_step]"
| "step_of (Backward t) = [Backward_step]"
| "step_of (Minimize s opt t) = [Minimize_step]"
| "step_of (Clear_grad opt) = [Clear_step]"
| "step_of ev = []"

definition update_steps :: "event list \<Rightarrow> step list" where
  "update_steps es = concat (map step_of es)"

section \<open>Basic facts about sequencing\<close>

lemma andthen_ret_left: "andthen (ret v) f = f v"
  by (rule ext) (simp add: andthen_def ret_def)

lemma andthen_ret_right: "andthen m ret = m"
  by (rule ext) (simp add: andthen_def ret_def split: prod.splits sum.splits)

lemma andthen_assoc: "andthen (andthen m f) g = andthen m (\<lambda>v. andthen (f v) g)"
  by (rule ext) (simp add: andthen_def split: prod.splits sum.splits)

lemma fw_call_no_raise: "fw_call no_raise ev w = (Inr (), w\<lparr>trace := trace w @ [ev]\<rparr>)"
  by (simp add: fw_call_def no_raise_def)

lemma fw_new_no_raise:
  "fw_new no_raise ev mk w = (Inr (mk (length (trace w))), w\<lparr>trace := trace w @ [ev]\<rparr>)"
  by (simp add: fw_new_def andthen_def fw_call_no_raise ret_def)

lemma start_timer_eq:
  "start_timer w = (Inr (), w\<lparr>start_time := Some (Now (length (trace w))), trace := trace w @ [Time_read]\<rparr>)"
  by (simp add: start_timer_def andthen_def time_time_def)

lemma end_timer_Some:
  "start_time w = Some t0 \<Longrightarrow>
   end_timer_and_print msg w =
     (Inr (), w\<lparr>trace := trace w @
        [Time_read, Print (Text (CHR 0x0A # msg)),
         Print (Formatted elapsed_fmt (Minus (Now (length (trace w))) t0))]\<rparr>)"
  by (simp add: end_timer_and_print_def andthen_def time_time_def print_out_def)

lemma end_timer_None:
  "start_time w = None \<Longrightarrow>
   end_timer_and_print msg w =
     (Inl TypeError, w\<lparr>trace := trace w @ [Time_read, Print (Text (CHR 0x0A # msg))]\<rparr>)"
  by (simp add: end_timer_and_print_def andthen_def time_time_def print_out_def)

lemma end_timer_returns_iff:
  "(\<exists>w'. end_timer_and_print msg w = (Inr (), w')) \<longleftrightarrow> start_time w \<noteq> None"
  by (cases "start_time w") (auto simp: end_timer_None end_timer_Some)

lemma end_timer_start_time: "start_time (snd (end_timer_and_print msg w)) = start_time w"
  by (cases "start_time w") (simp_all add: end_timer_None end_timer_Some)

lemma timer_calls_Nil: "timer_calls [] w = (Inr (), w)"
  by (simp add: timer_calls_def)

lemma timer_calls_Cons:
  "timer_calls (c # cs) w =
     (case do_timer_call c w of (Inl e, w') \<Rightarrow> (Inl e, w') | (Inr u, w') \<Rightarrow> timer_calls cs w')"
  unfolding timer_calls_def by simp

lemma for_each_append:
  "for_each body (xs @ ys) w =
     (case for_each body xs w of (Inl e, w') \<Rightarrow> (Inl e, w') | (Inr u, w') \<Rightarrow> for_each body ys w')"
  by (induction xs arbitrary: w) (auto split: prod.splits sum.splits)

lemma timer_calls_start_time:
  "timer_calls cs w = (Inr (), w1) \<Longrightarrow>
   (start_time w1 \<noteq> None) = (start_time w \<noteq> None \<or> Start_timer \<in> set cs)"
proof (induction cs arbitrary: w)
  case Nil
  then show ?case by (simp add: timer_calls_Nil)
next
  case (Cons c cs)
  show ?case
  proof (cases c)
    case Start_timer
    with Cons.prems have "timer_calls cs (snd (start_timer w)) = (Inr (), w1)"
      by (simp add: timer_calls_Cons start_timer_eq)
    from Cons.IH [OF this] Start_timer show ?thesis
      by (simp add: start_timer_eq)
  next
    case (End_timer msg)
    show ?thesis
    proof (cases "start_time w")
      case None
      with Cons.prems End_timer show ?thesis
        by (simp add: timer_calls_Cons end_timer_None)
    next
      case (Some t0)
      with Cons.prems End_timer
      have "timer_calls cs (snd (end_timer_and_print msg w)) = (Inr (), w1)"
        by (simp add: timer_calls_Cons end_timer_Some)
      from Cons.IH [OF this] End_timer Some show ?thesis
        by (simp add: end_timer_start_time)
    qed
  qed
qed

lemma timer_calls_returns:
  "start_time w \<noteq> None \<Longrightarrow> \<exists>w1. timer_calls cs w = (Inr (), w1)"
proof (induction cs arbitrary: w)
  case Nil
  then show ?case by (simp add: timer_calls_Nil)
next
  case (Cons c cs)
  show ?case
  proof (cases c)
    case Start_timer
    have "start_time (snd (start_timer w)) \<noteq> None" by (simp add: start_timer_eq)
    from Cons.IH [OF this] Start_timer show ?thesis
      by (simp add: timer_calls_Cons start_timer_eq)
  next
    case (End_timer msg)
    from Cons.prems obtain t0 where t0: "start_time w = Some t0" by auto
    then have "start_time (snd (end_timer_and_print msg w)) \<noteq> None"
      by (simp add: end_timer_start_time)
    from Cons.IH [OF this] End_timer t0 show ?thesis
      by (simp add: timer_calls_Cons end_timer_Some)
  qed
qed

section \<open>The timing helpers: what they store and print\<close>

text \<open>
  C5. \<^verbatim>\<open>start_timer()\<close> stores the clock reading in \<^verbatim>\<open>start_time\<close>. With a start
  time stored, \<^verbatim>\<open>end_timer_and_print(msg)\<close> reads the clock, prints a newline followed by
  \<^verbatim>\<open>msg\<close>, and then prints the difference of the new reading and the stored one under the
  format string that ends in \<^verbatim>\<open> = {:.3f} sec\<close>.
\<close>
theorem timer_pair_measures:
  "start_timer w =
     (Inr (), w\<lparr>start_time := Some (Now (length (trace w))), trace := trace w @ [Time_read]\<rparr>)
   \<and> (start_time w = Some t0 \<longrightarrow>
        end_timer_and_print msg w =
          (Inr (), w\<lparr>trace := trace w @
             [Time_read, Print (Text (CHR 0x0A # msg)),
              Print (Formatted elapsed_fmt (Minus (Now (length (trace w))) t0))]\<rparr>))
   \<and> elapsed_fmt =
       [CHR 0xE5, CHR 0x85, CHR 0xB1, CHR 0xE8, CHR 0xAE, CHR 0xA1,
        CHR 0xE8, CHR 0x80, CHR 0x97, CHR 0xE6, CHR 0x97, CHR 0xB6] @ '' = {:.3f} sec''"
  by (simp add: start_timer_eq end_timer_Some elapsed_fmt_def)

theorem timer_pair_measures_witness:
  "andthen start_timer (\<lambda>u. end_timer_and_print ''t'') \<lparr>start_time = None, loss_var = None, trace = []\<rparr> =
     (Inr (), \<lparr>start_time = Some (Now 0), loss_var = None,
        trace = [Time_read, Time_read, Print (Text (CHR 0x0A # ''t'')),
                 Print (Formatted elapsed_fmt (Minus (Now 1) (Now 0)))]\<rparr>)"
  using timer_pair_measures [of "\<lparr>start_time = None, loss_var = None, trace = []\<rparr>"]
    timer_pair_measures [of "\<lparr>start_time = Some (Now 0), loss_var = None, trace = [Time_read]\<rparr>" "Now 0" "''t''"]
  by (simp add: andthen_def)

lemma timer_calls_append:
  "timer_calls (cs @ ds) w =
     (case timer_calls cs w of (Inl e, w') \<Rightarrow> (Inl e, w') | (Inr u, w') \<Rightarrow> timer_calls ds w')"
  unfolding timer_calls_def by (rule for_each_append)

lemma two_ends_same_start:
  assumes "timer_calls [End_timer m1, End_timer m2] w = (Inr (), w')"
  shows "\<exists>t0. start_time w = Some t0 \<and> start_time w' = Some t0 \<and>
     trace w' = trace w @
       [Time_read, Print (Text (CHR 0x0A # m1)),
        Print (Formatted elapsed_fmt (Minus (Now (length (trace w))) t0)),
        Time_read, Print (Text (CHR 0x0A # m2)),
        Print (Formatted elapsed_fmt (Minus (Now (length (trace w) + 3)) t0))]"
proof (cases "start_time w")
  case None
  with assms show ?thesis
    by (simp add: timer_calls_Cons end_timer_None)
next
  case (Some t0)
  with assms show ?thesis
    by (auto simp: timer_calls_Cons timer_calls_Nil end_timer_Some)
qed

section \<open>The timing helpers: what they leave alone\<close>

text \<open>
  C7. \<^verbatim>\<open>start_timer()\<close> changes the variable \<^verbatim>\<open>start_time\<close> and nothing else of the module
  state; \<^verbatim>\<open>end_timer_and_print(msg)\<close> changes no module variable at all, whether it returns
  or raises. (Both add their clock reading and prints to the record of the run.) So after
  any sequence of calls of the two helpers, two calls of \<^verbatim>\<open>end_timer_and_print\<close> in a row
  subtract the same stored start time.
\<close>
theorem timer_frame:
  "(snd (start_timer w))\<lparr>start_time := s, trace := t\<rparr> = w\<lparr>start_time := s, trace := t\<rparr>
   \<and> (snd (end_timer_and_print msg w))\<lparr>trace := t\<rparr> = w\<lparr>trace := t\<rparr>
   \<and> (timer_calls (cs @ [End_timer m1, End_timer m2]) w = (Inr (), w') \<longrightarrow>
        (\<exists>t0 es. start_time w' = Some t0 \<and>
           trace w' = es @
             [Time_read, Print (Text (CHR 0x0A # m1)),
              Print (Formatted elapsed_fmt (Minus (Now (length es)) t0)),
              Time_read, Print (Text (CHR 0x0A # m2)),
              Print (Formatted elapsed_fmt (Minus (Now (length es + 3)) t0))]))"
proof (intro conjI impI)
  show "(snd (start_timer w))\<lparr>start_time := s, trace := t\<rparr> = w\<lparr>start_time := s, trace := t\<rparr>"
    by (simp add: start_timer_eq)
  show "(snd (end_timer_and_print msg w))\<lparr>trace := t\<rparr> = w\<lparr>trace := t\<rparr>"
    by (cases "start_time w") (simp_all add: end_timer_None end_timer_Some)
next
  assume run: "timer_calls (cs @ [End_timer m1, End_timer m2]) w = (Inr (), w')"
  then obtain w1 where w1: "timer_calls cs w = (Inr (), w1)"
    and rest: "timer_calls [End_timer m1, End_timer m2] w1 = (Inr (), w')"
    by (auto simp: timer_calls_append split: prod.splits sum.splits)
  from two_ends_same_start [OF rest] show
    "\<exists>t0 es. start_time w' = Some t0 \<and>
       trace w' = es @
         [Time_read, Print (Text (CHR 0x0A # m1)),
          Print (Formatted elapsed_fmt (Minus (Now (length es)) t0)),
          Time_read, Print (Text (CHR 0x0A # m2)),
          Print (Formatted elapsed_fmt (Minus (Now (length es + 3)) t0))]"
    by blast
qed

theorem timer_frame_witness:
  "timer_calls ([Start_timer] @ [End_timer ''a'', End_timer ''b''])
       \<lparr>start_time = None, loss_var = Some (Randn [] 0), trace = []\<rparr> =
     (Inr (), \<lparr>start_time = Some (Now 0), loss_var = Some (Randn [] 0),
        trace = [Time_read,
          Time_read, Print (Text (CHR 0x0A # ''a'')), Print (Formatted elapsed_fmt (Minus (Now 1) (Now 0))),
          Time_read, Print (Text (CHR 0x0A # ''b'')), Print (Formatted elapsed_fmt (Minus (Now 4) (Now 0)))]\<rparr>)
   \<and> (\<exists>t0 es. trace (snd (timer_calls ([Start_timer] @ [End_timer ''a'', End_timer ''b''])
       \<lparr>start_time = None, loss_var = Some (Randn [] 0), trace = []\<rparr>)) = es @
             [Time_read, Print (Text (CHR 0x0A # ''a'')),
              Print (Formatted elapsed_fmt (Minus (Now (length es)) t0)),
              Time_read, Print (Text (CHR 0x0A # ''b'')),
              Print (Formatted elapsed_fmt (Minus (Now (length es + 3)) t0))])"
proof -
  let ?w = "\<lparr>start_time = None, loss_var = Some (Randn [] 0), trace = []\<rparr>"
  have run: "timer_calls ([Start_timer] @ [End_timer ''a'', End_timer ''b'']) ?w =
     (Inr (), \<lparr>start_time = Some (Now 0), loss_var = Some (Randn [] 0),
        trace = [Time_read,
          Time_read, Print (Text (CHR 0x0A # ''a'')), Print (Formatted elapsed_fmt (Minus (Now 1) (Now 0))),
          Time_read, Print (Text (CHR 0x0A # ''b'')), Print (Formatted elapsed_fmt (Minus (Now 4) (Now 0)))]\<rparr>)"
    by (simp add: timer_calls_Cons timer_calls_Nil start_timer_eq end_timer_Some)
  from timer_frame [where w = ?w and cs = "[Start_timer]" and ?m1.0 = "''a''" and ?m2.0 = "''b''",
      THEN conjunct2, THEN conjunct2] run
  show ?thesis by (simp del: append.simps)
qed

section \<open>The timing helpers: the start time must be set\<close>

text \<open>
  C8. Cell 5 binds \<^verbatim>\<open>start_time\<close> to \<^verbatim>\<open>None\<close>. While it is \<^verbatim>\<open>None\<close>,
  \<^verbatim>\<open>end_timer_and_print(msg)\<close> reads the clock, prints the newline and \<^verbatim>\<open>msg\<close>, and then
  raises \<^verbatim>\<open>TypeError\<close> at the subtraction: the elapsed-time line is not printed. After any
  sequence of calls of the two helpers that started from \<^verbatim>\<open>None\<close>, the next
  \<^verbatim>\<open>end_timer_and_print\<close> returns exactly when the sequence called \<^verbatim>\<open>start_timer\<close>.
\<close>
theorem end_timer_needs_start:
  "start_time (snd (timer_cell w0)) = None
   \<and> (start_time w = None \<longrightarrow>
        end_timer_and_print msg w =
          (Inl TypeError, w\<lparr>trace := trace w @ [Time_read, Print (Text (CHR 0x0A # msg))]\<rparr>))
   \<and> (start_time w = None \<longrightarrow> timer_calls cs w = (Inr (), w1) \<longrightarrow>
        ((\<exists>w2. end_timer_and_print msg w1 = (Inr (), w2)) \<longleftrightarrow> Start_timer \<in> set cs))"
proof (intro conjI impI)
  show "start_time (snd (timer_cell w0)) = None"
    by (simp add: timer_cell_def)
  show "end_timer_and_print msg w =
      (Inl TypeError, w\<lparr>trace := trace w @ [Time_read, Print (Text (CHR 0x0A # msg))]\<rparr>)"
    if "start_time w = None"
    using that by (rule end_timer_None)
  show "(\<exists>w2. end_timer_and_print msg w1 = (Inr (), w2)) \<longleftrightarrow> Start_timer \<in> set cs"
    if "start_time w = None" and "timer_calls cs w = (Inr (), w1)"
    using timer_calls_start_time [OF that(2)] that(1)
    by (simp add: end_timer_returns_iff)
qed

theorem end_timer_needs_start_witness:
  "end_timer_and_print ''m'' (snd (timer_cell \<lparr>start_time = Some (Now 0), loss_var = None, trace = [Time_read]\<rparr>)) =
     (Inl TypeError, \<lparr>start_time = None, loss_var = None,
        trace = [Time_read, Time_read, Print (Text (CHR 0x0A # ''m''))]\<rparr>)
   \<and> (\<exists>w2. end_timer_and_print ''m''
          (snd (timer_calls [Start_timer] \<lparr>start_time = None, loss_var = None, trace = []\<rparr>)) = (Inr (), w2))"
proof -
  let ?w = "\<lparr>start_time = None, loss_var = None, trace = []\<rparr>"
  let ?v = "snd (timer_cell \<lparr>start_time = Some (Now 0), loss_var = None, trace = [Time_read]\<rparr>)"
  have a: "start_time ?v = None" by (simp add: timer_cell_def)
  have b: "timer_calls [Start_timer] ?w = (Inr (), snd (timer_calls [Start_timer] ?w))"
    by (simp add: timer_calls_Cons timer_calls_Nil start_timer_eq)
  have c: "start_time ?w = None" by simp
  from end_timer_needs_start [where w = ?v and msg = "''m''", THEN conjunct2, THEN conjunct1] a
  have 1: "end_timer_and_print ''m'' ?v =
     (Inl TypeError, \<lparr>start_time = None, loss_var = None,
        trace = [Time_read, Time_read, Print (Text (CHR 0x0A # ''m''))]\<rparr>)"
    by (simp add: timer_cell_def)
  from end_timer_needs_start [where w = ?w and msg = "''m''" and cs = "[Start_timer]",
      THEN conjunct2, THEN conjunct2] b c
  have 2: "\<exists>w2. end_timer_and_print ''m'' (snd (timer_calls [Start_timer] ?w)) = (Inr (), w2)"
    by simp
  from 1 2 show ?thesis by blast
qed

section \<open>Layer calls and the forward pass\<close>

lemma call_layer_Inr:
  "call_layer F l x w = (Inr y, w') \<Longrightarrow>
     y = Layer_out l x \<and> w' = w\<lparr>trace := trace w @ [Layer_call l x]\<rparr> \<and> accepts l x"
  by (cases l) (auto simp: call_layer_def andthen_def fw_call_def split: option.splits if_splits)

lemma call_layer_no_raise:
  "accepts l x \<Longrightarrow>
   call_layer no_raise l x w = (Inr (Layer_out l x), w\<lparr>trace := trace w @ [Layer_call l x]\<rparr>)"
  by (cases l) (auto simp: call_layer_def andthen_def fw_call_no_raise)

lemma call_layer_rejects:
  "\<not> accepts l x \<Longrightarrow>
   call_layer no_raise l x w = (Inl ValueError, w\<lparr>trace := trace w @ [Layer_call l x]\<rparr>)"
  by (cases l) (auto simp: call_layer_def andthen_def fw_call_no_raise)

lemma forward_kcomp:
  "forward F self =
     kcomp (call_layer F (linear3 self)) (kcomp (call_layer F (relu2 self))
       (kcomp (call_layer F (linear2 self)) (kcomp (call_layer F (relu1 self))
         (call_layer F (linear1 self)))))"
  by (rule ext) (simp add: forward_def kcomp_def andthen_assoc andthen_ret_right)

lemma forward_Inr:
  assumes "forward F self x w = (Inr y, w')"
  shows "y = forward_value self x \<and> w' = w\<lparr>trace := trace w @ forward_calls self x\<rparr>
         \<and> well_shaped self x"
proof -
  from assms obtain y1 w1 where 1: "call_layer F (linear1 self) x w = (Inr y1, w1)"
    by (auto simp: forward_def andthen_def split: prod.splits sum.splits)
  with assms obtain y2 w2 where 2: "call_layer F (relu1 self) y1 w1 = (Inr y2, w2)"
    by (auto simp: forward_def andthen_def split: prod.splits sum.splits)
  with assms 1 obtain y3 w3 where 3: "call_layer F (linear2 self) y2 w2 = (Inr y3, w3)"
    by (auto simp: forward_def andthen_def split: prod.splits sum.splits)
  with assms 1 2 obtain y4 w4 where 4: "call_layer F (relu2 self) y3 w3 = (Inr y4, w4)"
    by (auto simp: forward_def andthen_def split: prod.splits sum.splits)
  with assms 1 2 3 obtain y5 w5 where 5: "call_layer F (linear3 self) y4 w4 = (Inr y5, w5)"
    by (auto simp: forward_def andthen_def split: prod.splits sum.splits)
  from assms 1 2 3 4 5 have r: "y = y5" "w' = w5"
    by (simp_all add: forward_def andthen_def ret_def)
  note c = call_layer_Inr [OF 1] call_layer_Inr [OF 2] call_layer_Inr [OF 3]
    call_layer_Inr [OF 4] call_layer_Inr [OF 5]
  from c r show ?thesis
    by (simp add: forward_value_def forward_calls_def well_shaped_def)
qed

lemma forward_no_raise:
  assumes "well_shaped self x"
  shows "forward no_raise self x w =
     (Inr (forward_value self x), w\<lparr>trace := trace w @ forward_calls self x\<rparr>)"
  using assms
  by (simp add: well_shaped_def forward_def andthen_def call_layer_no_raise ret_def
      forward_value_def forward_calls_def)

lemma forward_no_raise_rejects:
  assumes "\<not> well_shaped self x"
  shows "\<exists>w'. forward no_raise self x w = (Inl ValueError, w')"
proof -
  let ?y1 = "Layer_out (linear1 self) x"
  let ?y2 = "Layer_out (relu1 self) ?y1"
  let ?y3 = "Layer_out (linear2 self) ?y2"
  let ?y4 = "Layer_out (relu2 self) ?y3"
  consider "\<not> accepts (linear1 self) x"
    | "accepts (linear1 self) x" "\<not> accepts (relu1 self) ?y1"
    | "accepts (linear1 self) x" "accepts (relu1 self) ?y1" "\<not> accepts (linear2 self) ?y2"
    | "accepts (linear1 self) x" "accepts (relu1 self) ?y1" "accepts (linear2 self) ?y2"
      "\<not> accepts (relu2 self) ?y3"
    | "accepts (linear1 self) x" "accepts (relu1 self) ?y1" "accepts (linear2 self) ?y2"
      "accepts (relu2 self) ?y3" "\<not> accepts (linear3 self) ?y4"
    using assms unfolding well_shaped_def by blast
  then show ?thesis
    by cases (simp_all add: forward_def andthen_def call_layer_no_raise call_layer_rejects)
qed

text \<open>
  C1. \<^verbatim>\<open>forward\<close> is the composition of the five layer calls, \<^verbatim>\<open>linear3\<close> outermost: whenever
  it returns, its value is \<^verbatim>\<open>linear3(relu2(linear2(relu1(linear1(x)))))\<close> and it has made
  exactly these five layer calls in this order, the last result returned as it is; and it
  returns whenever each layer accepts its input and the framework does not raise.
\<close>
theorem forward_is_composition:
  "forward F self =
     kcomp (call_layer F (linear3 self)) (kcomp (call_layer F (relu2 self))
       (kcomp (call_layer F (linear2 self)) (kcomp (call_layer F (relu1 self))
         (call_layer F (linear1 self)))))
   \<and> (forward F self x w = (Inr y, w') \<longrightarrow>
        y = Layer_out (linear3 self) (Layer_out (relu2 self) (Layer_out (linear2 self)
              (Layer_out (relu1 self) (Layer_out (linear1 self) x))))
        \<and> trace w' = trace w @
            [Layer_call (linear1 self) x,
             Layer_call (relu1 self) (Layer_out (linear1 self) x),
             Layer_call (linear2 self) (Layer_out (relu1 self) (Layer_out (linear1 self) x)),
             Layer_call (relu2 self)
               (Layer_out (linear2 self) (Layer_out (relu1 self) (Layer_out (linear1 self) x))),
             Layer_call (linear3 self)
               (Layer_out (relu2 self) (Layer_out (linear2 self)
                 (Layer_out (relu1 self) (Layer_out (linear1 self) x))))])
   \<and> (well_shaped self x \<longrightarrow>
        fst (forward no_raise self x w) =
          Inr (Layer_out (linear3 self) (Layer_out (relu2 self) (Layer_out (linear2 self)
              (Layer_out (relu1 self) (Layer_out (linear1 self) x))))))"
proof (intro conjI impI)
  show "forward F self =
     kcomp (call_layer F (linear3 self)) (kcomp (call_layer F (relu2 self))
       (kcomp (call_layer F (linear2 self)) (kcomp (call_layer F (relu1 self))
         (call_layer F (linear1 self)))))"
    by (rule forward_kcomp)
next
  assume r: "forward F self x w = (Inr y, w')"
  from forward_Inr [OF r] show
    "y = Layer_out (linear3 self) (Layer_out (relu2 self) (Layer_out (linear2 self)
              (Layer_out (relu1 self) (Layer_out (linear1 self) x))))"
    by (simp add: forward_value_def)
  from forward_Inr [OF r] show "trace w' = trace w @
            [Layer_call (linear1 self) x,
             Layer_call (relu1 self) (Layer_out (linear1 self) x),
             Layer_call (linear2 self) (Layer_out (relu1 self) (Layer_out (linear1 self) x)),
             Layer_call (relu2 self)
               (Layer_out (linear2 self) (Layer_out (relu1 self) (Layer_out (linear1 self) x))),
             Layer_call (linear3 self)
               (Layer_out (relu2 self) (Layer_out (linear2 self)
                 (Layer_out (relu1 self) (Layer_out (linear1 self) x))))]"
    by (simp add: forward_calls_def)
next
  assume "well_shaped self x"
  then show "fst (forward no_raise self x w) =
          Inr (Layer_out (linear3 self) (Layer_out (relu2 self) (Layer_out (linear2 self)
              (Layer_out (relu1 self) (Layer_out (linear1 self) x)))))"
    by (simp add: forward_no_raise forward_value_def)
qed

theorem forward_is_composition_witness:
  "well_shaped (net_at 0 3 3) (Randn [2, 3] 0)
   \<and> fst (forward no_raise (net_at 0 3 3) (Randn [2, 3] 0) \<lparr>start_time = None, loss_var = None, trace = []\<rparr>) =
       Inr (Layer_out (Linear 5 3 3) (Layer_out (ReLU 4) (Layer_out (Linear 3 3 3)
              (Layer_out (ReLU 2) (Layer_out (Linear 1 3 3) (Randn [2, 3] 0))))))
   \<and> trace (snd (forward no_raise (net_at 0 3 3) (Randn [2, 3] 0) \<lparr>start_time = None, loss_var = None, trace = []\<rparr>)) =
       [Layer_call (Linear 1 3 3) (Randn [2, 3] 0),
        Layer_call (ReLU 2) (Layer_out (Linear 1 3 3) (Randn [2, 3] 0)),
        Layer_call (Linear 3 3 3) (Layer_out (ReLU 2) (Layer_out (Linear 1 3 3) (Randn [2, 3] 0))),
        Layer_call (ReLU 4)
          (Layer_out (Linear 3 3 3) (Layer_out (ReLU 2) (Layer_out (Linear 1 3 3) (Randn [2, 3] 0)))),
        Layer_call (Linear 5 3 3)
          (Layer_out (ReLU 4) (Layer_out (Linear 3 3 3)
            (Layer_out (ReLU 2) (Layer_out (Linear 1 3 3) (Randn [2, 3] 0)))))]"
proof -
  let ?w = "\<lparr>start_time = None, loss_var = None, trace = []\<rparr>"
  let ?r = "forward no_raise (net_at 0 3 3) (Randn [2, 3] 0) ?w"
  let ?v = "forward_value (net_at 0 3 3) (Randn [2, 3] 0)"
  have ws: "well_shaped (net_at 0 3 3) (Randn [2, 3] 0)"
    by (simp add: well_shaped_def net_at_def)
  note inst = forward_is_composition [where F = no_raise and self = "net_at 0 3 3"
      and x = "Randn [2, 3] 0" and w = ?w]
  from inst [THEN conjunct2, THEN conjunct2] ws
  have val: "fst ?r = Inr ?v"
    by (simp add: forward_value_def)
  then have run: "?r = (Inr ?v, snd ?r)"
    by (cases ?r) simp
  from inst [where y = ?v and w' = "snd ?r", THEN conjunct2, THEN conjunct1] run
  have tr: "trace (snd ?r) = forward_calls (net_at 0 3 3) (Randn [2, 3] 0)"
    by (simp add: forward_calls_def)
  from ws val tr show ?thesis
    by (simp add: forward_value_def forward_calls_def net_at_def)
qed

section \<open>Building the network\<close>

lemma fw_call_Inr:
  "fw_call F ev w = (Inr u, w') \<Longrightarrow>
     w' = w\<lparr>trace := trace w @ [ev]\<rparr> \<and> F (length (trace w)) ev = None"
  by (auto simp: fw_call_def split: option.splits)

lemma fw_new_Inr:
  "fw_new F ev mk w = (Inr v, w') \<Longrightarrow>
     v = mk (length (trace w)) \<and> w' = w\<lparr>trace := trace w @ [ev]\<rparr>"
  by (auto simp: fw_new_def andthen_def ret_def fw_call_def split: option.splits)

lemma SimpleNet_init_no_raise:
  "SimpleNet_init no_raise i j w =
     (Inr (net_at (length (trace w)) i j), w\<lparr>trace := trace w @ init_calls i j\<rparr>)"
  by (simp add: SimpleNet_init_def andthen_def fw_call_no_raise fw_new_no_raise ret_def
      net_at_def init_calls_def)

lemma SimpleNet_init_Inr:
  assumes "SimpleNet_init F i j w = (Inr self, w')"
  shows "self = net_at (length (trace w)) i j \<and> w' = w\<lparr>trace := trace w @ init_calls i j\<rparr>"
proof -
  let ?lin = "\<lambda>k. Linear k i j"
  from assms obtain u w1 where 1: "fw_call F Layer_init w = (Inr u, w1)"
    by (auto simp: SimpleNet_init_def andthen_def split: prod.splits sum.splits)
  with assms obtain l1 w2 where 2: "fw_new F (New_Linear i j) ?lin w1 = (Inr l1, w2)"
    by (auto simp: SimpleNet_init_def andthen_def split: prod.splits sum.splits)
  with assms 1 obtain r1 w3 where 3: "fw_new F New_ReLU ReLU w2 = (Inr r1, w3)"
    by (auto simp: SimpleNet_init_def andthen_def split: prod.splits sum.splits)
  with assms 1 2 obtain l2 w4 where 4: "fw_new F (New_Linear i j) ?lin w3 = (Inr l2, w4)"
    by (auto simp: SimpleNet_init_def andthen_def split: prod.splits sum.splits)
  with assms 1 2 3 obtain r2 w5 where 5: "fw_new F New_ReLU ReLU w4 = (Inr r2, w5)"
    by (auto simp: SimpleNet_init_def andthen_def split: prod.splits sum.splits)
  with assms 1 2 3 4 obtain l3 w6 where 6: "fw_new F (New_Linear i j) ?lin w5 = (Inr l3, w6)"
    by (auto simp: SimpleNet_init_def andthen_def split: prod.splits sum.splits)
  from assms 1 2 3 4 5 6
  have r: "self = \<lparr>linear1 = l1, relu1 = r1, linear2 = l2, relu2 = r2, linear3 = l3\<rparr>" "w' = w6"
    by (simp_all add: SimpleNet_init_def andthen_def ret_def)
  note c = fw_call_Inr [OF 1] fw_new_Inr [OF 2] fw_new_Inr [OF 3] fw_new_Inr [OF 4]
    fw_new_Inr [OF 5] fw_new_Inr [OF 6]
  from c r show ?thesis
    by (simp add: net_at_def init_calls_def)
qed

lemma well_shaped_net_at:
  "well_shaped (net_at n i j) x \<longleftrightarrow> shape x \<noteq> [] \<and> last (shape x) = i \<and> i = j"
  by (auto simp: well_shaped_def net_at_def)

lemma shape_forward_value_net_at:
  "shape (forward_value (net_at n i j) x) = butlast (shape x) @ [j]"
  by (simp add: forward_value_def net_at_def)

lemma script_train_data_shapes:
  "list_all (\<lambda>x. shape x = [batch_size, input_size script]) (train_data script)"
  by (simp add: list_all_iff script_def)

lemma script_labels_shapes:
  "list_all (\<lambda>x. shape x = [batch_size, output_size script]) (labels script)"
  by (simp add: list_all_iff script_def)

section \<open>The network is shape-correct only when square\<close>

text \<open>
  C9. \<^verbatim>\<open>SimpleNet(i, j)\<close> builds all three \<^verbatim>\<open>Linear\<close> layers with \<open>i\<close> input features and
  \<open>j\<close> output features. On a batch of shape \<open>[b, i]\<close>, \<^verbatim>\<open>forward\<close> can return only if
  \<open>i = j\<close> (whatever the framework does otherwise); with \<open>i = j\<close> and no failure of the
  framework it returns a tensor of shape \<open>[b, j]\<close>, with \<open>i \<noteq> j\<close> it raises the shape
  error. The script sets both sizes to 4096 and draws every batch with shape
  \<open>[batch_size, input_size]\<close>.
\<close>
theorem simple_net_needs_square:
  "(SimpleNet_init F i j w0 = (Inr self, w1) \<longrightarrow>
      (\<exists>k1 k2 k3. linear1 self = Linear k1 i j \<and> linear2 self = Linear k2 i j
          \<and> linear3 self = Linear k3 i j)
      \<and> (shape x = [b, i] \<longrightarrow> forward F' self x w = (Inr y, w') \<longrightarrow> i = j)
      \<and> (shape x = [b, i] \<longrightarrow> i = j \<longrightarrow>
            fst (forward no_raise self x w) = Inr (forward_value self x)
            \<and> shape (forward_value self x) = [b, j])
      \<and> (shape x = [b, i] \<longrightarrow> i \<noteq> j \<longrightarrow> fst (forward no_raise self x w) = Inl ValueError))
   \<and> fst (SimpleNet_init no_raise i j w0) = Inr (net_at (length (trace w0)) i j)
   \<and> input_size script = 4096 \<and> output_size script = 4096
   \<and> list_all (\<lambda>x. shape x = [batch_size, input_size script]) (train_data script)"
proof (intro conjI impI)
  show "fst (SimpleNet_init no_raise i j w0) = Inr (net_at (length (trace w0)) i j)"
    by (simp add: SimpleNet_init_no_raise)
  show "input_size script = 4096" "output_size script = 4096"
    by (simp_all add: script_def)
  show "list_all (\<lambda>x. shape x = [batch_size, input_size script]) (train_data script)"
    by (rule script_train_data_shapes)
next
  assume init: "SimpleNet_init F i j w0 = (Inr self, w1)"
  note self = SimpleNet_init_Inr [OF init, THEN conjunct1]
  show "\<exists>k1 k2 k3. linear1 self = Linear k1 i j \<and> linear2 self = Linear k2 i j
          \<and> linear3 self = Linear k3 i j"
    by (simp add: self net_at_def)
  show "i = j" if "shape x = [b, i]" and "forward F' self x w = (Inr y, w')"
    using forward_Inr [OF that(2)] by (simp add: self well_shaped_net_at)
  show "fst (forward no_raise self x w) = Inr (forward_value self x)"
    if "shape x = [b, i]" and "i = j"
    using that by (simp add: self forward_no_raise well_shaped_net_at)
  show "shape (forward_value self x) = [b, j]" if "shape x = [b, i]" and "i = j"
    using that by (simp add: self shape_forward_value_net_at)
  show "fst (forward no_raise self x w) = Inl ValueError" if "shape x = [b, i]" and "i \<noteq> j"
  proof -
    from that have "\<not> well_shaped self x"
      by (simp add: self well_shaped_net_at)
    from forward_no_raise_rejects [OF this, of w] show ?thesis
      by auto
  qed
qed

theorem simple_net_needs_square_witness:
  "fst (SimpleNet_init no_raise 3 3 \<lparr>start_time = None, loss_var = None, trace = []\<rparr>) = Inr (net_at 0 3 3)
   \<and> fst (forward no_raise (net_at 0 3 3) (Randn [2, 3] 0) \<lparr>start_time = None, loss_var = None, trace = []\<rparr>) =
       Inr (forward_value (net_at 0 3 3) (Randn [2, 3] 0))
   \<and> shape (forward_value (net_at 0 3 3) (Randn [2, 3] 0)) = [2, 3]
   \<and> fst (SimpleNet_init no_raise 3 4 \<lparr>start_time = None, loss_var = None, trace = []\<rparr>) = Inr (net_at 0 3 4)
   \<and> fst (forward no_raise (net_at 0 3 4) (Randn [2, 3] 0) \<lparr>start_time = None, loss_var = None, trace = []\<rparr>) =
       Inl ValueError"
proof -
  let ?w = "\<lparr>start_time = None, loss_var = None, trace = []\<rparr>"
  have a: "SimpleNet_init no_raise 3 3 ?w = (Inr (net_at 0 3 3), snd (SimpleNet_init no_raise 3 3 ?w))"
    by (simp add: SimpleNet_init_no_raise)
  have b: "SimpleNet_init no_raise 3 4 ?w = (Inr (net_at 0 3 4), snd (SimpleNet_init no_raise 3 4 ?w))"
    by (simp add: SimpleNet_init_no_raise)
  have s: "shape (Randn [2, 3] 0) = [2, 3]" by simp
  from simple_net_needs_square [where F = no_raise and i = 3 and j = 3 and ?w0.0 = ?w
      and self = "net_at 0 3 3" and x = "Randn [2, 3] 0" and b = 2 and w = ?w, THEN conjunct1] a s
  have 1: "fst (forward no_raise (net_at 0 3 3) (Randn [2, 3] 0) ?w) =
       Inr (forward_value (net_at 0 3 3) (Randn [2, 3] 0))
     \<and> shape (forward_value (net_at 0 3 3) (Randn [2, 3] 0)) = [2, 3]"
    by simp
  from simple_net_needs_square [where F = no_raise and i = 3 and j = 4 and ?w0.0 = ?w
      and self = "net_at 0 3 4" and x = "Randn [2, 3] 0" and b = 2 and w = ?w, THEN conjunct1] b s
  have 2: "fst (forward no_raise (net_at 0 3 4) (Randn [2, 3] 0) ?w) = Inl ValueError"
    by simp
  from a have 3: "fst (SimpleNet_init no_raise 3 3 ?w) = Inr (net_at 0 3 3)"
    by (metis fst_conv)
  from b have 4: "fst (SimpleNet_init no_raise 3 4 ?w) = Inr (net_at 0 3 4)"
    by (metis fst_conv)
  from 1 2 3 4 show ?thesis by blast
qed

section \<open>Loops whose body returns\<close>

lemma for_each_fold:
  "(\<And>x w. x \<in> set xs \<Longrightarrow> body x w = (Inr (), upd x w)) \<Longrightarrow>
   for_each body xs w = (Inr (), fold upd xs w)"
  by (induction xs arbitrary: w) simp_all

lemma fold_effect:
  "xs \<noteq> [] \<Longrightarrow>
   fold (\<lambda>x w. w\<lparr>loss_var := Some (L x), trace := trace w @ E x\<rparr>) xs w =
     w\<lparr>loss_var := Some (L (last xs)), trace := trace w @ concat (map E xs)\<rparr>"
proof (induction xs arbitrary: w)
  case Nil
  then show ?case by simp
next
  case (Cons x xs)
  then show ?case by (cases "xs = []") simp_all
qed

lemma loop_once:
  assumes "\<And>x w. x \<in> set xs \<Longrightarrow>
      body x w = (Inr (), w\<lparr>loss_var := Some (L x), trace := trace w @ E x\<rparr>)"
    and "xs \<noteq> []"
  shows "for_each body xs w =
     (Inr (), w\<lparr>loss_var := Some (L (last xs)), trace := trace w @ concat (map E xs)\<rparr>)"
  using for_each_fold [of xs body "\<lambda>x w. w\<lparr>loss_var := Some (L x), trace := trace w @ E x\<rparr>" w]
    assms fold_effect [OF assms(2), where L = L and E = E and w = w]
  by simp

lemma nested_loop:
  assumes body: "\<And>x w. x \<in> set xs \<Longrightarrow>
      body x w = (Inr (), w\<lparr>loss_var := Some (L x), trace := trace w @ E x\<rparr>)"
    and ne: "xs \<noteq> []" and pos: "0 < n"
  shows "for_each (\<lambda>epoch. for_each body xs) [0..<n] w =
     (Inr (), w\<lparr>loss_var := Some (L (last xs)),
        trace := trace w @ concat (replicate n (concat (map E xs)))\<rparr>)"
proof -
  have inner: "for_each body xs v =
      (Inr (), v\<lparr>loss_var := Some (L (last xs)), trace := trace v @ concat (map E xs)\<rparr>)"
    for v and epoch :: nat
    using body ne by (rule loop_once)
  from pos have up: "[0..<n] \<noteq> []" by simp
  have "for_each (\<lambda>epoch. for_each body xs) [0..<n] w =
     (Inr (), w\<lparr>loss_var := Some ((\<lambda>epoch. L (last xs)) (last [0..<n])),
        trace := trace w @ concat (map (\<lambda>epoch. concat (map E xs)) [0..<n])\<rparr>)"
    by (rule loop_once [OF _ up]) (rule inner)
  then show ?thesis
    by (simp add: map_replicate_const)
qed

section \<open>One iteration when nothing raises\<close>

lemma call_model_no_raise:
  "well_shaped (net_of m) d \<Longrightarrow>
   call_model no_raise m d w =
     (Inr (forward_value (net_of m) d),
      w\<lparr>trace := trace w @ [Model_call m d] @ forward_calls (net_of m) d\<rparr>)"
  by (simp add: call_model_def andthen_def fw_call_no_raise forward_no_raise)

lemma mse_no_raise:
  "mse no_raise a b w = (Inr (MSE a b), w\<lparr>trace := trace w @ [Mse_call a b]\<rparr>)"
  by (simp add: mse_def andthen_def fw_call_no_raise ret_def)

lemma scale_no_raise:
  "scale no_raise s v w = (Inr (Scaled (scaler_id s) v), w\<lparr>trace := trace w @ [Scale s v]\<rparr>)"
  by (simp add: scale_def andthen_def fw_call_no_raise ret_def)

lemma baseline_body_no_raise:
  "well_shaped (net_of m) d \<Longrightarrow>
   baseline_body no_raise m opt (i, (d, l)) w =
     (Inr (), w\<lparr>loss_var := Some (loss_of m (d, l)),
        trace := trace w @ baseline_events m opt (d, l)\<rparr>)"
  by (simp add: baseline_body_def andthen_def call_model_no_raise mse_no_raise assign_loss_def
      fw_call_no_raise baseline_events_def loss_of_def)

lemma scope_no_raise:
  "well_shaped (net_of m) d \<Longrightarrow>
   with_auto_cast no_raise kw
     (andthen (call_model no_raise m d) (\<lambda>output.
      andthen (mse no_raise output l) (\<lambda>loss.
      andthen (assign_loss loss) (\<lambda>u. ret loss)))) w =
     (Inr (loss_of m (d, l)),
      w\<lparr>loss_var := Some (loss_of m (d, l)),
        trace := trace w @ [AutoCast_enter kw, Model_call m d] @ forward_calls (net_of m) d @
          [Mse_call (forward_value (net_of m) d) l, AutoCast_exit]\<rparr>)"
  by (simp add: with_auto_cast_def andthen_def fw_call_no_raise call_model_no_raise mse_no_raise
      assign_loss_def ret_def autocast_exit_def loss_of_def)

lemma o1_body_no_raise:
  "well_shaped (net_of m) d \<Longrightarrow>
   o1_body no_raise m opt s (i, (d, l)) w =
     (Inr (), w\<lparr>loss_var := Some (loss_of m (d, l)),
        trace := trace w @ amp_events [] m opt s True (d, l)\<rparr>)"
  by (simp add: o1_body_def andthen_def [of "with_auto_cast _ _ _"] scope_no_raise)
     (simp add: andthen_def scale_no_raise fw_call_no_raise amp_events_def)

lemma o2_body_no_raise:
  "well_shaped (net_of m) d \<Longrightarrow>
   o2_body no_raise m opt s (i, (d, l)) w =
     (Inr (), w\<lparr>loss_var := Some (loss_of m (d, l)),
        trace := trace w @ amp_events o2_kwargs m opt s True (d, l)\<rparr>)"
  by (simp add: o2_body_def andthen_def [of "with_auto_cast _ _ _"] scope_no_raise)
     (simp add: andthen_def scale_no_raise fw_call_no_raise amp_events_def)

lemma accum_body_no_raise:
  "well_shaped (net_of m) d \<Longrightarrow>
   accum_body no_raise m opt s (i, (d, l)) w =
     (Inr (), w\<lparr>loss_var := Some (loss_of m (d, l)),
        trace := trace w @
          amp_events [] m opt s ((i + 1) mod accumulate_batchs_num = 0) (d, l)\<rparr>)"
  by (simp add: accum_body_def andthen_def [of "with_auto_cast _ _ _"] scope_no_raise)
     (simp add: andthen_def scale_no_raise fw_call_no_raise amp_events_def ret_def)

section \<open>The loops when nothing raises\<close>

lemma in_enumerate_snd: "x \<in> set (enumerate n zs) \<Longrightarrow> snd x \<in> set zs"
proof -
  assume "x \<in> set (enumerate n zs)"
  then have "snd x \<in> snd ` set (enumerate n zs)" by (rule imageI)
  also have "snd ` set (enumerate n zs) = set (map snd (enumerate n zs))"
    by (simp only: set_map)
  also have "\<dots> = set zs" by (simp only: map_snd_enumerate)
  finally show ?thesis .
qed

lemma last_enumerate_snd: "zs \<noteq> [] \<Longrightarrow> snd (last (enumerate n zs)) = last zs"
  by (metis enumerate_eq_zip last_map length_0_conv length_map map_snd_enumerate)

lemma map_snd_enumerate_comp: "map (\<lambda>x. f (snd x)) (enumerate n zs) = map f zs"
proof -
  have "map (\<lambda>x. f (snd x)) (enumerate n zs) = map f (map snd (enumerate n zs))"
    by (simp only: map_map comp_def)
  then show ?thesis by (simp only: map_snd_enumerate)
qed

lemma baseline_loop_no_raise:
  assumes ws: "\<And>d l. (d, l) \<in> set (zip (train_data p) (labels p)) \<Longrightarrow> well_shaped (net_of m) d"
    and ne: "zip (train_data p) (labels p) \<noteq> []" and pos: "0 < epochs p"
  shows "baseline_loop no_raise p m opt w =
     (Inr (), w\<lparr>loss_var := Some (loss_of m (last (zip (train_data p) (labels p)))),
        trace := trace w @ concat (replicate (epochs p)
          (concat (map (baseline_events m opt) (zip (train_data p) (labels p)))))\<rparr>)"
proof -
  let ?zs = "zip (train_data p) (labels p)"
  have body: "baseline_body no_raise m opt x v =
      (Inr (), v\<lparr>loss_var := Some (loss_of m (snd x)),
         trace := trace v @ baseline_events m opt (snd x)\<rparr>)"
    if "x \<in> set (enumerate 0 ?zs)" for x v
  proof -
    obtain i d l where x: "x = (i, (d, l))" by (cases x) auto
    with that have "(d, l) \<in> set ?zs" using in_enumerate_snd by fastforce
    then have "well_shaped (net_of m) d" by (rule ws)
    then show ?thesis by (simp add: x baseline_body_no_raise)
  qed
  from ne have ne': "enumerate 0 ?zs \<noteq> []" by (simp add: enumerate_eq_zip)
  show ?thesis
    unfolding baseline_loop_def
    by (simp add: nested_loop [OF body ne' pos] last_enumerate_snd [OF ne] map_snd_enumerate_comp)
qed

lemma o1_loop_no_raise:
  assumes ws: "\<And>d l. (d, l) \<in> set (zip (train_data p) (labels p)) \<Longrightarrow> well_shaped (net_of m) d"
    and ne: "zip (train_data p) (labels p) \<noteq> []" and pos: "0 < epochs p"
  shows "o1_loop no_raise p m opt s w =
     (Inr (), w\<lparr>loss_var := Some (loss_of m (last (zip (train_data p) (labels p)))),
        trace := trace w @ concat (replicate (epochs p)
          (concat (map (amp_events [] m opt s True) (zip (train_data p) (labels p)))))\<rparr>)"
proof -
  let ?zs = "zip (train_data p) (labels p)"
  have body: "o1_body no_raise m opt s x v =
      (Inr (), v\<lparr>loss_var := Some (loss_of m (snd x)),
         trace := trace v @ amp_events [] m opt s True (snd x)\<rparr>)"
    if "x \<in> set (enumerate 0 ?zs)" for x v
  proof -
    obtain i d l where x: "x = (i, (d, l))" by (cases x) auto
    with that have "(d, l) \<in> set ?zs" using in_enumerate_snd by fastforce
    then have "well_shaped (net_of m) d" by (rule ws)
    then show ?thesis by (simp add: x o1_body_no_raise)
  qed
  from ne have ne': "enumerate 0 ?zs \<noteq> []" by (simp add: enumerate_eq_zip)
  show ?thesis
    unfolding o1_loop_def
    by (simp add: nested_loop [OF body ne' pos] last_enumerate_snd [OF ne] map_snd_enumerate_comp)
qed

lemma o2_loop_no_raise:
  assumes ws: "\<And>d l. (d, l) \<in> set (zip (train_data p) (labels p)) \<Longrightarrow> well_shaped (net_of m) d"
    and ne: "zip (train_data p) (labels p) \<noteq> []" and pos: "0 < epochs p"
  shows "o2_loop no_raise p m opt s w =
     (Inr (), w\<lparr>loss_var := Some (loss_of m (last (zip (train_data p) (labels p)))),
        trace := trace w @ concat (replicate (epochs p)
          (concat (map (amp_events o2_kwargs m opt s True) (zip (train_data p) (labels p)))))\<rparr>)"
proof -
  let ?zs = "zip (train_data p) (labels p)"
  have body: "o2_body no_raise m opt s x v =
      (Inr (), v\<lparr>loss_var := Some (loss_of m (snd x)),
         trace := trace v @ amp_events o2_kwargs m opt s True (snd x)\<rparr>)"
    if "x \<in> set (enumerate 0 ?zs)" for x v
  proof -
    obtain i d l where x: "x = (i, (d, l))" by (cases x) auto
    with that have "(d, l) \<in> set ?zs" using in_enumerate_snd by fastforce
    then have "well_shaped (net_of m) d" by (rule ws)
    then show ?thesis by (simp add: x o2_body_no_raise)
  qed
  from ne have ne': "enumerate 0 ?zs \<noteq> []" by (simp add: enumerate_eq_zip)
  show ?thesis
    unfolding o2_loop_def
    by (simp add: nested_loop [OF body ne' pos] last_enumerate_snd [OF ne] map_snd_enumerate_comp)
qed

lemma accum_loop_no_raise:
  assumes ws: "\<And>d l. (d, l) \<in> set (zip (train_data p) (labels p)) \<Longrightarrow> well_shaped (net_of m) d"
    and ne: "zip (train_data p) (labels p) \<noteq> []" and pos: "0 < epochs p"
  shows "accum_loop no_raise p m opt s w =
     (Inr (), w\<lparr>loss_var := Some (loss_of m (last (zip (train_data p) (labels p)))),
        trace := trace w @ concat (replicate (epochs p)
          (concat (map (\<lambda>x. amp_events [] m opt s ((fst x + 1) mod accumulate_batchs_num = 0) (snd x))
             (enumerate 0 (zip (train_data p) (labels p))))))\<rparr>)"
proof -
  let ?zs = "zip (train_data p) (labels p)"
  have body: "accum_body no_raise m opt s x v =
      (Inr (), v\<lparr>loss_var := Some (loss_of m (snd x)),
         trace := trace v @
           amp_events [] m opt s ((fst x + 1) mod accumulate_batchs_num = 0) (snd x)\<rparr>)"
    if "x \<in> set (enumerate 0 ?zs)" for x v
  proof -
    obtain i d l where x: "x = (i, (d, l))" by (cases x) auto
    with that have "(d, l) \<in> set ?zs" using in_enumerate_snd by fastforce
    then have "well_shaped (net_of m) d" by (rule ws)
    then show ?thesis by (simp add: x accum_body_no_raise)
  qed
  from ne have ne': "enumerate 0 ?zs \<noteq> []" by (simp add: enumerate_eq_zip)
  show ?thesis
    unfolding accum_loop_def
    by (simp add: nested_loop [OF body ne' pos] last_enumerate_snd [OF ne])
qed

section \<open>The cells when nothing raises\<close>

lemma fits_well_shaped:
  assumes "fits p" and "(d, l) \<in> set (zip (train_data p) (labels p))"
  shows "well_shaped (net_at n (input_size p) (output_size p)) d"
proof -
  from assms(2) have "d \<in> set (train_data p)" by (rule set_zip_leftD)
  with assms(1) show ?thesis
    by (auto simp: fits_def list_all_iff well_shaped_net_at)
qed

lemma fits_batches: "fits p \<Longrightarrow> zip (train_data p) (labels p) \<noteq> []"
  by (cases "train_data p"; cases "labels p") (simp_all add: fits_def)

lemma fits_epochs: "fits p \<Longrightarrow> 0 < epochs p"
  by (simp add: fits_def)

lemma new_SimpleNet_no_raise:
  "new_SimpleNet no_raise i j w =
     (Inr (SimpleNet (net_at (length (trace w)) i j)), w\<lparr>trace := trace w @ init_calls i j\<rparr>)"
  by (simp add: new_SimpleNet_def andthen_def SimpleNet_init_no_raise ret_def)

lemma new_SGD_no_raise:
  "new_SGD no_raise m w = (Inr (SGD (length (trace w) + 1)), w\<lparr>trace := trace w @ sgd_calls m\<rparr>)"
  by (simp add: new_SGD_def andthen_def fw_call_no_raise fw_new_no_raise sgd_calls_def)

lemma new_GradScaler_no_raise:
  "new_GradScaler no_raise w =
     (Inr (GradScaler (length (trace w))), w\<lparr>trace := trace w @ scaler_calls\<rparr>)"
  by (simp add: new_GradScaler_def fw_new_no_raise scaler_calls_def)

lemma decorate_no_raise:
  "decorate no_raise m opt w =
     (Inr (Decorated m, Decorated_opt opt), w\<lparr>trace := trace w @ decorate_calls m opt\<rparr>)"
  by (simp add: decorate_def andthen_def fw_call_no_raise ret_def decorate_calls_def)

lemma closing_no_raise:
  "loss_var w = Some v \<Longrightarrow> start_time w = Some t0 \<Longrightarrow>
   andthen print_loss (\<lambda>u. end_timer_and_print msg) w =
     (Inr (), w\<lparr>trace := trace w @ closing_events v msg (length (trace w)) t0\<rparr>)"
  by (simp add: andthen_def print_loss_def print_out_def end_timer_Some closing_events_def)

lemma length_init_calls: "length (init_calls i j) = 6"
  by (simp add: init_calls_def)

lemma length_sgd_calls: "length (sgd_calls m) = 2"
  by (simp add: sgd_calls_def)

lemma andthen_Inr: "m w = (Inr v, w') \<Longrightarrow> andthen m f w = f v w'"
  by (simp add: andthen_def)

lemma andthen_Inl: "m w = (Inl e, w') \<Longrightarrow> andthen m f w = (Inl e, w')"
  by (simp add: andthen_def)

lemma baseline_cell_no_raise:
  assumes "fits p"
  shows "baseline_cell no_raise p w =
     (let n = length (trace w);
          model = SimpleNet (net_at n (input_size p) (output_size p));
          optimizer = SGD (n + 7);
          batches = zip (train_data p) (labels p);
          loop = concat (replicate (epochs p) (concat (map (baseline_events model optimizer) batches)))
      in (Inr (), w\<lparr>start_time := Some (Now (n + 8)),
            loss_var := Some (loss_of model (last batches)),
            trace := trace w @ init_calls (input_size p) (output_size p) @ sgd_calls model @
              [Time_read] @ loop @
              closing_events (loss_of model (last batches)) msg_default (n + 9 + length loop)
                (Now (n + 8))\<rparr>))"
proof -
  let ?n = "length (trace w)"
  let ?i = "input_size p" and ?j = "output_size p"
  let ?m = "SimpleNet (net_at ?n ?i ?j)"
  let ?opt = "SGD (?n + 7)"
  let ?zs = "zip (train_data p) (labels p)"
  let ?loop = "concat (replicate (epochs p) (concat (map (baseline_events ?m ?opt) ?zs)))"
  let ?w1 = "w\<lparr>trace := trace w @ init_calls ?i ?j\<rparr>"
  let ?w2 = "w\<lparr>trace := trace w @ init_calls ?i ?j @ sgd_calls ?m\<rparr>"
  let ?w3 = "w\<lparr>start_time := Some (Now (?n + 8)),
     trace := trace w @ init_calls ?i ?j @ sgd_calls ?m @ [Time_read]\<rparr>"
  let ?w4 = "w\<lparr>start_time := Some (Now (?n + 8)), loss_var := Some (loss_of ?m (last ?zs)),
     trace := trace w @ init_calls ?i ?j @ sgd_calls ?m @ [Time_read] @ ?loop\<rparr>"
  have ws: "\<And>d l. (d, l) \<in> set ?zs \<Longrightarrow> well_shaped (net_of ?m) d"
    using assms by (simp add: fits_well_shaped)
  have s1: "new_SimpleNet no_raise ?i ?j w = (Inr ?m, ?w1)"
    by (rule new_SimpleNet_no_raise)
  have s2: "new_SGD no_raise ?m ?w1 = (Inr ?opt, ?w2)"
    by (simp add: new_SGD_no_raise length_init_calls)
  have s3: "start_timer ?w2 = (Inr (), ?w3)"
    by (simp add: start_timer_eq length_init_calls length_sgd_calls)
  have s4: "baseline_loop no_raise p ?m ?opt ?w3 = (Inr (), ?w4)"
    by (simp add: baseline_loop_no_raise [OF ws fits_batches [OF assms] fits_epochs [OF assms]])
  have s5: "andthen print_loss (\<lambda>u. end_timer_and_print msg_default) ?w4 =
      (Inr (), ?w4\<lparr>trace := trace ?w4 @
         closing_events (loss_of ?m (last ?zs)) msg_default (length (trace ?w4)) (Now (?n + 8))\<rparr>)"
    by (rule closing_no_raise) simp_all
  have "baseline_cell no_raise p w =
      andthen print_loss (\<lambda>u. end_timer_and_print msg_default) ?w4"
    unfolding baseline_cell_def
    by (subst andthen_def, simp only: s1 s2 s3 s4 prod.case sum.case)+
  also note s5
  finally show ?thesis
    by (simp add: Let_def length_init_calls length_sgd_calls add.commute add.left_commute)
qed

lemma length_scaler_calls: "length scaler_calls = 1"
  by (simp add: scaler_calls_def)

lemma length_decorate_calls: "length (decorate_calls m opt) = 1"
  by (simp add: decorate_calls_def)

lemma o1_cell_no_raise:
  assumes "fits p"
  shows "o1_cell no_raise p w =
     (let n = length (trace w);
          model0 = SimpleNet (net_at n (input_size p) (output_size p));
          model = model0;
          optimizer = SGD (n + 7);
          scaler = GradScaler (n + 8);
          batches = zip (train_data p) (labels p);
          loop = concat (replicate (epochs p) (concat (map (amp_events [] model optimizer scaler True) batches)))
      in (Inr (), w\<lparr>start_time := Some (Now (n + 9)),
            loss_var := Some (loss_of model (last batches)),
            trace := trace w @ init_calls (input_size p) (output_size p) @ sgd_calls model0 @ scaler_calls @
              [Time_read] @ loop @
              closing_events (loss_of model (last batches)) msg_o1 (n + 10 + length loop)
                (Now (n + 9))\<rparr>))"
proof -
  let ?n = "length (trace w)"
  let ?i = "input_size p" and ?j = "output_size p"
  let ?base = "SimpleNet (net_at ?n ?i ?j)"
  let ?m = "?base"
  let ?opt = "SGD (?n + 7)"
  let ?s = "GradScaler (?n + 8)"
  let ?zs = "zip (train_data p) (labels p)"
  let ?loop = "concat (replicate (epochs p) (concat (map (amp_events [] ?m ?opt ?s True) ?zs)))"
  let ?w1 = "w\<lparr>trace := trace w @ init_calls ?i ?j\<rparr>"
  let ?w2 = "w\<lparr>trace := trace w @ init_calls ?i ?j @ sgd_calls ?base\<rparr>"
  let ?w3 = "w\<lparr>trace := trace w @ init_calls ?i ?j @ sgd_calls ?base @ scaler_calls\<rparr>"
  let ?w4 = "w\<lparr>start_time := Some (Now (?n + 9)),
     trace := trace w @ init_calls ?i ?j @ sgd_calls ?base @ scaler_calls @ [Time_read]\<rparr>"
  let ?w5 = "w\<lparr>start_time := Some (Now (?n + 9)), loss_var := Some (loss_of ?m (last ?zs)),
     trace := trace w @ init_calls ?i ?j @ sgd_calls ?base @ scaler_calls @ [Time_read] @ ?loop\<rparr>"
  have ws: "\<And>d l. (d, l) \<in> set ?zs \<Longrightarrow> well_shaped (net_of ?m) d"
    using assms by (simp add: fits_well_shaped)
  have s1: "new_SimpleNet no_raise ?i ?j w = (Inr ?base, ?w1)"
    by (rule new_SimpleNet_no_raise)
  have s2: "new_SGD no_raise ?base ?w1 = (Inr (SGD (?n + 7)), ?w2)"
    by (simp add: new_SGD_no_raise length_init_calls)
  have s3: "new_GradScaler no_raise ?w2 = (Inr ?s, ?w3)"
    by (simp add: new_GradScaler_no_raise length_init_calls length_sgd_calls)
  have s4: "start_timer ?w3 = (Inr (), ?w4)"
    by (simp add: start_timer_eq length_init_calls length_sgd_calls length_scaler_calls
        length_decorate_calls)
  have s5: "o1_loop no_raise p ?m ?opt ?s ?w4 = (Inr (), ?w5)"
    by (simp add: o1_loop_no_raise [OF ws fits_batches [OF assms] fits_epochs [OF assms]])
  have s6: "andthen print_loss (\<lambda>u. end_timer_and_print msg_o1) ?w5 =
      (Inr (), ?w5\<lparr>trace := trace ?w5 @
         closing_events (loss_of ?m (last ?zs)) msg_o1 (length (trace ?w5)) (Now (?n + 9))\<rparr>)"
    by (rule closing_no_raise) simp_all
  have "o1_cell no_raise p w =
      andthen print_loss (\<lambda>u. end_timer_and_print msg_o1) ?w5"
    unfolding o1_cell_def
    by (subst andthen_def, simp only: s1 s2 s3 s4 s5 prod.case sum.case)+
  also note s6
  finally show ?thesis
    by (simp add: Let_def length_init_calls length_sgd_calls length_scaler_calls
        length_decorate_calls add.commute add.left_commute)
qed

lemma o2_cell_no_raise:
  assumes "fits p"
  shows "o2_cell no_raise p w =
     (let n = length (trace w);
          model0 = SimpleNet (net_at n (input_size p) (output_size p));
          model = Decorated model0;
          optimizer = Decorated_opt (SGD (n + 7));
          scaler = GradScaler (n + 8);
          batches = zip (train_data p) (labels p);
          loop = concat (replicate (epochs p) (concat (map (amp_events o2_kwargs model optimizer scaler True) batches)))
      in (Inr (), w\<lparr>start_time := Some (Now (n + 10)),
            loss_var := Some (loss_of model (last batches)),
            trace := trace w @ init_calls (input_size p) (output_size p) @ sgd_calls model0 @ scaler_calls @
              decorate_calls model0 (SGD (n + 7)) @
              [Time_read] @ loop @
              closing_events (loss_of model (last batches)) msg_o2 (n + 11 + length loop)
                (Now (n + 10))\<rparr>))"
proof -
  let ?n = "length (trace w)"
  let ?i = "input_size p" and ?j = "output_size p"
  let ?base = "SimpleNet (net_at ?n ?i ?j)"
  let ?m = "Decorated ?base"
  let ?opt = "Decorated_opt (SGD (?n + 7))"
  let ?s = "GradScaler (?n + 8)"
  let ?zs = "zip (train_data p) (labels p)"
  let ?loop = "concat (replicate (epochs p) (concat (map (amp_events o2_kwargs ?m ?opt ?s True) ?zs)))"
  let ?w1 = "w\<lparr>trace := trace w @ init_calls ?i ?j\<rparr>"
  let ?w2 = "w\<lparr>trace := trace w @ init_calls ?i ?j @ sgd_calls ?base\<rparr>"
  let ?w3 = "w\<lparr>trace := trace w @ init_calls ?i ?j @ sgd_calls ?base @ scaler_calls\<rparr>"
  let ?wd = "w\<lparr>trace := trace w @ init_calls ?i ?j @ sgd_calls ?base @ scaler_calls @ decorate_calls ?base (SGD (?n + 7))\<rparr>"
  let ?w4 = "w\<lparr>start_time := Some (Now (?n + 10)),
     trace := trace w @ init_calls ?i ?j @ sgd_calls ?base @ scaler_calls @ decorate_calls ?base (SGD (?n + 7)) @ [Time_read]\<rparr>"
  let ?w5 = "w\<lparr>start_time := Some (Now (?n + 10)), loss_var := Some (loss_of ?m (last ?zs)),
     trace := trace w @ init_calls ?i ?j @ sgd_calls ?base @ scaler_calls @ decorate_calls ?base (SGD (?n + 7)) @ [Time_read] @ ?loop\<rparr>"
  have ws: "\<And>d l. (d, l) \<in> set ?zs \<Longrightarrow> well_shaped (net_of ?m) d"
    using assms by (simp add: fits_well_shaped)
  have s1: "new_SimpleNet no_raise ?i ?j w = (Inr ?base, ?w1)"
    by (rule new_SimpleNet_no_raise)
  have s2: "new_SGD no_raise ?base ?w1 = (Inr (SGD (?n + 7)), ?w2)"
    by (simp add: new_SGD_no_raise length_init_calls)
  have s3: "new_GradScaler no_raise ?w2 = (Inr ?s, ?w3)"
    by (simp add: new_GradScaler_no_raise length_init_calls length_sgd_calls)
  have sd: "decorate no_raise ?base (SGD (?n + 7)) ?w3 = (Inr (?m, ?opt), ?wd)"
    by (simp add: decorate_no_raise)
  have s4: "start_timer ?wd = (Inr (), ?w4)"
    by (simp add: start_timer_eq length_init_calls length_sgd_calls length_scaler_calls
        length_decorate_calls)
  have s5: "o2_loop no_raise p ?m ?opt ?s ?w4 = (Inr (), ?w5)"
    by (simp add: o2_loop_no_raise [OF ws fits_batches [OF assms] fits_epochs [OF assms]])
  have s6: "andthen print_loss (\<lambda>u. end_timer_and_print msg_o2) ?w5 =
      (Inr (), ?w5\<lparr>trace := trace ?w5 @
         closing_events (loss_of ?m (last ?zs)) msg_o2 (length (trace ?w5)) (Now (?n + 10))\<rparr>)"
    by (rule closing_no_raise) simp_all
  have "o2_cell no_raise p w =
      andthen print_loss (\<lambda>u. end_timer_and_print msg_o2) ?w5"
    unfolding o2_cell_def
    by (subst andthen_def, simp only: s1 s2 s3 sd s4 s5 prod.case sum.case)+
  also note s6
  finally show ?thesis
    by (simp add: Let_def length_init_calls length_sgd_calls length_scaler_calls
        length_decorate_calls add.commute add.left_commute)
qed

lemma accum_cell_no_raise:
  assumes "fits p"
  shows "accum_cell no_raise p w =
     (let n = length (trace w);
          model0 = SimpleNet (net_at n (input_size p) (output_size p));
          model = model0;
          optimizer = SGD (n + 7);
          scaler = GradScaler (n + 8);
          batches = zip (train_data p) (labels p);
          loop = concat (replicate (epochs p) (concat (map (\<lambda>x. amp_events [] model optimizer scaler ((fst x + 1) mod accumulate_batchs_num = 0) (snd x))
             (enumerate 0 batches))))
      in (Inr (), w\<lparr>start_time := Some (Now (n + 9)),
            loss_var := Some (loss_of model (last batches)),
            trace := trace w @ init_calls (input_size p) (output_size p) @ sgd_calls model0 @ scaler_calls @
              [Time_read] @ loop @
              closing_events (loss_of model (last batches)) msg_amp (n + 10 + length loop)
                (Now (n + 9))\<rparr>))"
proof -
  let ?n = "length (trace w)"
  let ?i = "input_size p" and ?j = "output_size p"
  let ?base = "SimpleNet (net_at ?n ?i ?j)"
  let ?m = "?base"
  let ?opt = "SGD (?n + 7)"
  let ?s = "GradScaler (?n + 8)"
  let ?zs = "zip (train_data p) (labels p)"
  let ?loop = "concat (replicate (epochs p) (concat (map (\<lambda>x. amp_events [] ?m ?opt ?s ((fst x + 1) mod accumulate_batchs_num = 0) (snd x))
             (enumerate 0 ?zs))))"
  let ?w1 = "w\<lparr>trace := trace w @ init_calls ?i ?j\<rparr>"
  let ?w2 = "w\<lparr>trace := trace w @ init_calls ?i ?j @ sgd_calls ?base\<rparr>"
  let ?w3 = "w\<lparr>trace := trace w @ init_calls ?i ?j @ sgd_calls ?base @ scaler_calls\<rparr>"
  let ?w4 = "w\<lparr>start_time := Some (Now (?n + 9)),
     trace := trace w @ init_calls ?i ?j @ sgd_calls ?base @ scaler_calls @ [Time_read]\<rparr>"
  let ?w5 = "w\<lparr>start_time := Some (Now (?n + 9)), loss_var := Some (loss_of ?m (last ?zs)),
     trace := trace w @ init_calls ?i ?j @ sgd_calls ?base @ scaler_calls @ [Time_read] @ ?loop\<rparr>"
  have ws: "\<And>d l. (d, l) \<in> set ?zs \<Longrightarrow> well_shaped (net_of ?m) d"
    using assms by (simp add: fits_well_shaped)
  have s1: "new_SimpleNet no_raise ?i ?j w = (Inr ?base, ?w1)"
    by (rule new_SimpleNet_no_raise)
  have s2: "new_SGD no_raise ?base ?w1 = (Inr (SGD (?n + 7)), ?w2)"
    by (simp add: new_SGD_no_raise length_init_calls)
  have s3: "new_GradScaler no_raise ?w2 = (Inr ?s, ?w3)"
    by (simp add: new_GradScaler_no_raise length_init_calls length_sgd_calls)
  have s4: "start_timer ?w3 = (Inr (), ?w4)"
    by (simp add: start_timer_eq length_init_calls length_sgd_calls length_scaler_calls
        length_decorate_calls)
  have s5: "accum_loop no_raise p ?m ?opt ?s ?w4 = (Inr (), ?w5)"
    by (simp add: accum_loop_no_raise [OF ws fits_batches [OF assms] fits_epochs [OF assms]])
  have s6: "andthen print_loss (\<lambda>u. end_timer_and_print msg_amp) ?w5 =
      (Inr (), ?w5\<lparr>trace := trace ?w5 @
         closing_events (loss_of ?m (last ?zs)) msg_amp (length (trace ?w5)) (Now (?n + 9))\<rparr>)"
    by (rule closing_no_raise) simp_all
  have "accum_cell no_raise p w =
      andthen print_loss (\<lambda>u. end_timer_and_print msg_amp) ?w5"
    unfolding accum_cell_def
    by (subst andthen_def, simp only: s1 s2 s3 s4 s5 prod.case sum.case)+
  also note s6
  finally show ?thesis
    by (simp add: Let_def length_init_calls length_sgd_calls length_scaler_calls
        length_decorate_calls add.commute add.left_commute)
qed

section \<open>Failures stop a run\<close>

lemma clean_append: "clean F k (a @ b) \<longleftrightarrow> clean F k a \<and> clean F (k + length a) b"
  by (induction a arbitrary: k) auto

lemma stops_append_clean: "clean F k a \<Longrightarrow> stops F k (a @ b) e = stops F (k + length a) b e"
  by (induction a arbitrary: k) auto

lemma stops_exit: "stops F k a e \<Longrightarrow> stops F k (a @ [AutoCast_exit]) e"
  by (induction a arbitrary: k) (auto split: option.splits)

lemma clean_exit: "clean F k a \<Longrightarrow> clean F k (a @ [AutoCast_exit])"
  by (simp add: clean_append verdict_def)

lemma outcome_okI:
  assumes "trace w' = trace w @ es" and "list_all P es"
    and "case r of Inr v \<Rightarrow> clean F (length (trace w)) es
         | Inl e \<Rightarrow> stops F (length (trace w)) es e \<or>
                    (A e \<and> clean F (length (trace w)) es)"
  shows "outcome_ok F P A w (r, w')"
proof -
  from assms(1) have "new_events w w' = es"
    by (simp add: new_events_def)
  with assms show ?thesis
    by (simp add: outcome_ok_def split: sum.splits)
qed

lemma outcome_okD:
  assumes "outcome_ok F P A w (r, w')"
  shows "\<exists>es. trace w' = trace w @ es \<and> list_all P es \<and>
     (case r of Inr v \<Rightarrow> clean F (length (trace w)) es
      | Inl e \<Rightarrow> stops F (length (trace w)) es e \<or>
                 (A e \<and> clean F (length (trace w)) es))"
proof -
  from assms have "take (length (trace w)) (trace w') = trace w"
    by (simp add: outcome_ok_def)
  then have "trace w' = trace w @ new_events w w'"
    unfolding new_events_def by (metis append_take_drop_id)
  with assms show ?thesis
    by (auto simp: outcome_ok_def)
qed

lemma outcome_ok_Inl:
  "outcome_ok F P A w (Inl e :: exn + 'b, w') \<Longrightarrow> outcome_ok F P A w (Inl e :: exn + 'c, w')"
  by (simp add: outcome_ok_def)

lemma fail_stopI: "(\<And>w. outcome_ok F P A w (p w)) \<Longrightarrow> fail_stop F P A p"
  by (simp add: fail_stop_def)

lemma fail_stopD: "fail_stop F P A p \<Longrightarrow> outcome_ok F P A w (p w)"
  by (simp add: fail_stop_def)

lemma outcome_ok_then:
  assumes first: "outcome_ok F P A w (Inr v, w1)" and second: "outcome_ok F P A w1 (r, w2)"
  shows "outcome_ok F P A w (r, w2)"
proof -
  from outcome_okD [OF first] obtain es1 where 1: "trace w1 = trace w @ es1" "list_all P es1"
    "clean F (length (trace w)) es1" by auto
  from outcome_okD [OF second] obtain es2 where 2: "trace w2 = trace w1 @ es2" "list_all P es2"
    "case r of Inr v \<Rightarrow> clean F (length (trace w1)) es2
      | Inl e \<Rightarrow> stops F (length (trace w1)) es2 e \<or>
                 (A e \<and> clean F (length (trace w1)) es2)" by auto
  show ?thesis
  proof (rule outcome_okI [where es = "es1 @ es2"])
    show "trace w2 = trace w @ es1 @ es2" using 1 2 by simp
    show "list_all P (es1 @ es2)" using 1 2 by simp
    show "case r of Inr v \<Rightarrow> clean F (length (trace w)) (es1 @ es2)
         | Inl e \<Rightarrow> stops F (length (trace w)) (es1 @ es2) e \<or>
                    (A e \<and> clean F (length (trace w)) (es1 @ es2))"
      using 1 2 by (auto simp: clean_append stops_append_clean split: sum.splits)
  qed
qed

lemma fail_stop_andthen:
  assumes "fail_stop F P A m" and "\<And>v. fail_stop F P A (f v)"
  shows "fail_stop F P A (andthen m f)"
proof (rule fail_stopI)
  fix w
  obtain r1 w1 where m: "m w = (r1, w1)" by (cases "m w")
  from fail_stopD [OF assms(1), where w = w] m have ok1: "outcome_ok F P A w (r1, w1)" by simp
  show "outcome_ok F P A w (andthen m f w)"
  proof (cases r1)
    case (Inl e)
    with m ok1 show ?thesis by (simp add: andthen_def outcome_ok_Inl)
  next
    case (Inr v)
    obtain r2 w2 where f: "f v w1 = (r2, w2)" by (cases "f v w1")
    from fail_stopD [OF assms(2) [of v], where w = w1] f have "outcome_ok F P A w1 (r2, w2)" by simp
    with ok1 Inr have "outcome_ok F P A w (r2, w2)" by (auto intro: outcome_ok_then)
    with m Inr f show ?thesis by (simp add: andthen_def)
  qed
qed

lemma outcome_ok_same: "outcome_ok F P A w (Inr v, w)"
  by (rule outcome_okI [where es = "[]"]) simp_all

lemma fail_stop_for_each:
  assumes "\<And>x. fail_stop F P A (body x)"
  shows "fail_stop F P A (for_each body xs)"
proof (rule fail_stopI)
  fix w
  show "outcome_ok F P A w (for_each body xs w)"
  proof (induction xs arbitrary: w)
    case Nil
    show ?case by (simp add: outcome_ok_same)
  next
    case (Cons x xs)
    obtain r1 w1 where b: "body x w = (r1, w1)" by (cases "body x w")
    from fail_stopD [OF assms [of x], where w = w] b have ok1: "outcome_ok F P A w (r1, w1)" by simp
    show ?case
    proof (cases r1)
      case (Inl e)
      with b ok1 show ?thesis by simp
    next
      case (Inr u)
      obtain r2 w2 where l: "for_each body xs w1 = (r2, w2)" by (cases "for_each body xs w1")
      from Cons.IH [of w1] l have "outcome_ok F P A w1 (r2, w2)" by simp
      with ok1 Inr have "outcome_ok F P A w (r2, w2)" by (auto intro: outcome_ok_then)
      with b Inr l show ?thesis by simp
    qed
  qed
qed

lemma fail_stop_ret: "fail_stop F P A (ret v)"
  by (rule fail_stopI) (simp add: ret_def outcome_ok_same)

lemma fail_stop_fw_call:
  assumes "P ev" and "\<not> builtin ev" and "contract ev = None"
  shows "fail_stop F P A (fw_call F ev)"
proof (rule fail_stopI)
  fix w :: "'a world_scheme"
  show "outcome_ok F P A w (fw_call F ev w)"
  proof (cases "F (length (trace w)) ev")
    case None
    then have "fw_call F ev w = (Inr (), w\<lparr>trace := trace w @ [ev]\<rparr>)"
      by (simp add: fw_call_def)
    moreover have "outcome_ok F P A w (Inr (), w\<lparr>trace := trace w @ [ev]\<rparr>)"
      by (rule outcome_okI [where es = "[ev]"]) (use assms None in \<open>simp_all add: verdict_def\<close>)
    ultimately show ?thesis by simp
  next
    case (Some e)
    then have "fw_call F ev w = (Inl e, w\<lparr>trace := trace w @ [ev]\<rparr>)"
      by (simp add: fw_call_def)
    moreover have "outcome_ok F P A w (Inl e, w\<lparr>trace := trace w @ [ev]\<rparr>)"
      by (rule outcome_okI [where es = "[ev]"]) (use assms Some in \<open>simp_all add: verdict_def\<close>)
    ultimately show ?thesis by simp
  qed
qed

lemma fail_stop_fw_new:
  assumes "P ev" and "\<not> builtin ev" and "contract ev = None"
  shows "fail_stop F P A (fw_new F ev mk)"
proof (rule fail_stopI)
  fix w :: "'a world_scheme"
  have "fail_stop F P A (andthen (fw_call F ev) (\<lambda>u. ret (mk (length (trace w)))))"
    by (intro fail_stop_andthen fail_stop_fw_call fail_stop_ret assms)
  from fail_stopD [OF this, where w = w] show "outcome_ok F P A w (fw_new F ev mk w)"
    by (simp add: fw_new_def)
qed

lemma fail_stop_case_prod:
  "(\<And>a b. fail_stop F P A (f a b)) \<Longrightarrow> fail_stop F P A (case x of (a, b) \<Rightarrow> f a b)"
  by (cases x) simp

lemma fail_stop_if:
  "fail_stop F P A p \<Longrightarrow> fail_stop F P A q \<Longrightarrow> fail_stop F P A (if c then p else q)"
  by simp

lemma fail_stop_builtin:
  assumes "P ev" and "builtin ev"
  shows "fail_stop F P A (\<lambda>w. (Inr v, w\<lparr>trace := trace w @ [ev]\<rparr>))"
proof (rule fail_stopI)
  fix w :: "'a world_scheme"
  show "outcome_ok F P A w (Inr v, w\<lparr>trace := trace w @ [ev]\<rparr>)"
    by (rule outcome_okI [where es = "[ev]"]) (use assms in \<open>simp_all add: verdict_def\<close>)
qed

lemma fail_stop_silent:
  assumes "\<And>w. trace (g w) = trace w"
  shows "fail_stop F P A (\<lambda>w. (Inr v, g w))"
proof (rule fail_stopI)
  fix w :: "'a world_scheme"
  show "outcome_ok F P A w (Inr v, g w)"
    by (rule outcome_okI [where es = "[]"]) (simp_all add: assms)
qed

lemma fail_stop_time_time: "P Time_read \<Longrightarrow> fail_stop F P A time_time"
proof (rule fail_stopI)
  fix w :: "'a world_scheme"
  assume "P Time_read"
  then show "outcome_ok F P A w (time_time w)"
    unfolding time_time_def
    by (intro outcome_okI [where es = "[Time_read]"]) (simp_all add: verdict_def)
qed

lemma fail_stop_print_out: "P (Print x) \<Longrightarrow> fail_stop F P A (print_out x)"
  unfolding print_out_def by (rule fail_stop_builtin) simp_all

lemma fail_stop_start_timer: "P Time_read \<Longrightarrow> fail_stop F P A start_timer"
  unfolding start_timer_def
  by (intro fail_stop_andthen fail_stop_time_time fail_stop_silent) simp_all

lemma outcome_ok_interpreter: "A e \<Longrightarrow> outcome_ok F P A w (Inl e, w)"
  by (rule outcome_okI [where es = "[]"]) simp_all

lemma fail_stop_float_sub:
  "A TypeError \<Longrightarrow> fail_stop F P A (\<lambda>w. float_sub a (start_time w) w)"
proof (rule fail_stopI)
  fix w :: "'a world_scheme"
  assume "A TypeError"
  then show "outcome_ok F P A w (float_sub a (start_time w) w)"
    by (cases "start_time w") (simp_all add: outcome_ok_interpreter outcome_ok_same)
qed

lemma fail_stop_end_timer:
  "P Time_read \<Longrightarrow> (\<And>x. P (Print x)) \<Longrightarrow> A TypeError \<Longrightarrow>
   fail_stop F P A (end_timer_and_print msg)"
  unfolding end_timer_and_print_def
  by (intro fail_stop_andthen fail_stop_time_time fail_stop_print_out fail_stop_float_sub)

lemma fail_stop_print_loss:
  "(\<And>x. P (Print x)) \<Longrightarrow> A NameError \<Longrightarrow> fail_stop F P A print_loss"
proof (rule fail_stopI)
  fix w :: world
  assume p: "\<And>x. P (Print x)" and a: "A NameError"
  show "outcome_ok F P A w (print_loss w)"
  proof (cases "loss_var w")
    case None
    with a show ?thesis
      by (simp add: print_loss_def outcome_ok_interpreter)
  next
    case (Some v)
    then show ?thesis
      using fail_stopD [OF fail_stop_print_out [where P = P and x = "Tensor_repr v" and F = F and A = A],
          where w = w] p
      by (simp add: print_loss_def)
  qed
qed

lemma fail_stop_call_layer: "P (Layer_call l x) \<Longrightarrow> fail_stop F P A (call_layer F l x)"
proof (rule fail_stopI)
  fix w :: "'a world_scheme"
  assume p: "P (Layer_call l x)"
  let ?w' = "w\<lparr>trace := trace w @ [Layer_call l x]\<rparr>"
  show "outcome_ok F P A w (call_layer F l x w)"
  proof (cases "F (length (trace w)) (Layer_call l x)")
    case (Some e)
    then have "call_layer F l x w = (Inl e, ?w')"
      by (simp add: call_layer_def andthen_def fw_call_def)
    moreover have "outcome_ok F P A w (Inl e :: exn + tensor, ?w')"
      by (rule outcome_okI [where es = "[Layer_call l x]"]) (use p Some in \<open>simp_all add: verdict_def\<close>)
    ultimately show ?thesis by simp
  next
    case None
    show ?thesis
    proof (cases "accepts l x")
      case True
      with None have "call_layer F l x w = (Inr (Layer_out l x), ?w')"
        by (cases l) (simp_all add: call_layer_def andthen_def fw_call_def)
      moreover have "outcome_ok F P A w (Inr (Layer_out l x), ?w')"
        by (rule outcome_okI [where es = "[Layer_call l x]"])
          (use p None True in \<open>simp_all add: verdict_def\<close>)
      ultimately show ?thesis by simp
    next
      case False
      with None have "call_layer F l x w = (Inl ValueError, ?w')"
        by (cases l) (simp_all add: call_layer_def andthen_def fw_call_def)
      moreover have "outcome_ok F P A w (Inl ValueError :: exn + tensor, ?w')"
        by (rule outcome_okI [where es = "[Layer_call l x]"])
          (use p None False in \<open>simp_all add: verdict_def\<close>)
      ultimately show ?thesis by simp
    qed
  qed
qed

lemma fail_stop_forward: "(\<And>l y. P (Layer_call l y)) \<Longrightarrow> fail_stop F P A (forward F self x)"
  unfolding forward_def
  by (intro fail_stop_andthen fail_stop_call_layer fail_stop_ret)

lemma fail_stop_with_auto_cast:
  assumes enter: "P (AutoCast_enter kw)" and leave: "P AutoCast_exit"
    and body: "fail_stop F P A body"
  shows "fail_stop F P A (with_auto_cast F kw body)"
proof (rule fail_stopI)
  fix w :: "'a world_scheme"
  obtain r1 w1 where c: "fw_call F (AutoCast_enter kw) w = (r1, w1)"
    by (cases "fw_call F (AutoCast_enter kw) w")
  have "fail_stop F P A (fw_call F (AutoCast_enter kw))"
    by (rule fail_stop_fw_call) (simp_all add: enter)
  from fail_stopD [OF this, where w = w] c have ok1: "outcome_ok F P A w (r1, w1)" by simp
  show "outcome_ok F P A w (with_auto_cast F kw body w)"
  proof (cases r1)
    case (Inl e)
    with c ok1 show ?thesis by (simp add: with_auto_cast_def outcome_ok_Inl)
  next
    case (Inr u)
    obtain r2 w2 where b: "body w1 = (r2, w2)" by (cases "body w1")
    from fail_stopD [OF body, where w = w1] b have ok2: "outcome_ok F P A w1 (r2, w2)" by simp
    from outcome_okD [OF ok2] obtain es where es: "trace w2 = trace w1 @ es" "list_all P es"
      "case r2 of Inr v \<Rightarrow> clean F (length (trace w1)) es
        | Inl e \<Rightarrow> stops F (length (trace w1)) es e \<or>
                   (A e \<and> clean F (length (trace w1)) es)" by auto
    have "outcome_ok F P A w1 (r2, autocast_exit w2)"
    proof (rule outcome_okI [where es = "es @ [AutoCast_exit]"])
      show "trace (autocast_exit w2) = trace w1 @ es @ [AutoCast_exit]"
        using es by (simp add: autocast_exit_def)
      show "list_all P (es @ [AutoCast_exit])" using es leave by simp
      show "case r2 of Inr v \<Rightarrow> clean F (length (trace w1)) (es @ [AutoCast_exit])
        | Inl e \<Rightarrow> stops F (length (trace w1)) (es @ [AutoCast_exit]) e \<or>
                   (A e \<and> clean F (length (trace w1)) (es @ [AutoCast_exit]))"
        using es by (auto split: sum.splits intro: clean_exit stops_exit)
    qed
    with ok1 Inr have "outcome_ok F P A w (r2, autocast_exit w2)"
      by (auto intro: outcome_ok_then)
    with c Inr b show ?thesis
      by (cases r2) (simp_all add: with_auto_cast_def)
  qed
qed

section \<open>Failures stop the training cells\<close>

lemma fail_stop_andthen_val:
  assumes "fail_stop F P A m" and val: "\<And>w v w'. m w = (Inr v, w') \<Longrightarrow> Q v"
    and "\<And>v. Q v \<Longrightarrow> fail_stop F P A (f v)"
  shows "fail_stop F P A (andthen m f)"
proof (rule fail_stopI)
  fix w
  obtain r1 w1 where m: "m w = (r1, w1)" by (cases "m w")
  from fail_stopD [OF assms(1), where w = w] m have ok1: "outcome_ok F P A w (r1, w1)" by simp
  show "outcome_ok F P A w (andthen m f w)"
  proof (cases r1)
    case (Inl e)
    with m ok1 show ?thesis by (simp add: andthen_def outcome_ok_Inl)
  next
    case (Inr v)
    with m have "Q v" by (auto intro: val)
    then have fs: "fail_stop F P A (f v)" by (rule assms(3))
    obtain r2 w2 where f: "f v w1 = (r2, w2)" by (cases "f v w1")
    from fail_stopD [OF fs, where w = w1] f have "outcome_ok F P A w1 (r2, w2)" by simp
    with ok1 Inr have "outcome_ok F P A w (r2, w2)" by (auto intro: outcome_ok_then)
    with m Inr f show ?thesis by (simp add: andthen_def)
  qed
qed

lemma fail_stop_mono:
  assumes "fail_stop F P A p" and "\<And>ev. P ev \<Longrightarrow> Q ev"
  shows "fail_stop F Q A p"
proof (rule fail_stopI)
  fix w
  from fail_stopD [OF assms(1), where w = w] show "outcome_ok F Q A w (p w)"
    using assms(2) by (auto simp: outcome_ok_def list_all_iff split: prod.splits)
qed

lemma fail_stop_SimpleNet_init:
  assumes "\<And>ev. \<not> is_backward ev \<Longrightarrow> \<not> is_decorate ev \<Longrightarrow> P ev"
  shows "fail_stop F P A (SimpleNet_init F i j)"
  unfolding SimpleNet_init_def
  by (intro fail_stop_andthen fail_stop_fw_call fail_stop_fw_new fail_stop_ret)
    (simp_all add: assms)

lemma fail_stop_new_SimpleNet:
  assumes "\<And>ev. \<not> is_backward ev \<Longrightarrow> \<not> is_decorate ev \<Longrightarrow> P ev"
  shows "fail_stop F P A (new_SimpleNet F i j)"
  unfolding new_SimpleNet_def
  by (intro fail_stop_andthen fail_stop_SimpleNet_init fail_stop_ret) (simp_all add: assms)

lemma fail_stop_new_SGD:
  assumes "\<And>ev. \<not> is_backward ev \<Longrightarrow> \<not> is_decorate ev \<Longrightarrow> P ev"
  shows "fail_stop F P A (new_SGD F m)"
  unfolding new_SGD_def
  by (intro fail_stop_andthen fail_stop_fw_call fail_stop_fw_new) (simp_all add: assms)

lemma fail_stop_new_GradScaler:
  assumes "\<And>ev. \<not> is_backward ev \<Longrightarrow> \<not> is_decorate ev \<Longrightarrow> P ev"
  shows "fail_stop F P A (new_GradScaler F)"
  unfolding new_GradScaler_def
  by (intro fail_stop_fw_new) (simp_all add: assms)

lemma fail_stop_decorate:
  assumes "\<And>kw. P (Decorate kw)"
  shows "fail_stop F P A (decorate F m opt)"
  unfolding decorate_def
  by (intro fail_stop_andthen fail_stop_fw_call fail_stop_ret) (simp_all add: assms)

lemma fail_stop_call_model:
  assumes "\<And>ev. \<not> is_backward ev \<Longrightarrow> \<not> is_decorate ev \<Longrightarrow> P ev"
  shows "fail_stop F P A (call_model F m d)"
  unfolding call_model_def
  by (intro fail_stop_andthen fail_stop_fw_call fail_stop_forward) (simp_all add: assms)

lemma fail_stop_mse:
  assumes "\<And>ev. \<not> is_backward ev \<Longrightarrow> \<not> is_decorate ev \<Longrightarrow> P ev"
  shows "fail_stop F P A (mse F a b)"
  unfolding mse_def
  by (intro fail_stop_andthen fail_stop_fw_call fail_stop_ret) (simp_all add: assms)

lemma fail_stop_assign_loss: "fail_stop F P A (assign_loss v)"
proof -
  have "assign_loss v = (\<lambda>w. (Inr (), w\<lparr>loss_var := Some v\<rparr>))"
    by (rule ext) (simp add: assign_loss_def)
  then show ?thesis by (simp add: fail_stop_silent)
qed

lemma fail_stop_scale:
  assumes "\<And>ev. \<not> is_backward ev \<Longrightarrow> \<not> is_decorate ev \<Longrightarrow> P ev"
  shows "fail_stop F P A (scale F s v)"
  unfolding scale_def
  by (intro fail_stop_andthen fail_stop_fw_call fail_stop_ret) (simp_all add: assms)

lemma scale_Inr: "scale F s v w = (Inr y, w') \<Longrightarrow> is_scaled y"
  by (auto simp: scale_def andthen_def ret_def split: prod.splits sum.splits)

lemma fail_stop_scope:
  assumes "\<And>ev. \<not> is_backward ev \<Longrightarrow> \<not> is_decorate ev \<Longrightarrow> P ev"
  shows "fail_stop F P A (with_auto_cast F kw
       (andthen (call_model F m d) (\<lambda>output.
        andthen (mse F output l) (\<lambda>loss.
        andthen (assign_loss loss) (\<lambda>u. ret loss)))))"
  by (intro fail_stop_with_auto_cast fail_stop_andthen fail_stop_call_model fail_stop_mse
      fail_stop_assign_loss fail_stop_ret) (simp_all add: assms)

lemma fail_stop_baseline_body:
  assumes ord: "\<And>ev. \<not> is_backward ev \<Longrightarrow> \<not> is_decorate ev \<Longrightarrow> P ev"
    and bw: "\<And>t. P (Backward t)"
  shows "fail_stop F P A (baseline_body F m opt x)"
  unfolding baseline_body_def
  by (intro fail_stop_case_prod fail_stop_andthen fail_stop_call_model fail_stop_mse
      fail_stop_assign_loss fail_stop_fw_call) (simp_all add: ord bw)

lemma fail_stop_o1_body:
  assumes ord: "\<And>ev. \<not> is_backward ev \<Longrightarrow> \<not> is_decorate ev \<Longrightarrow> P ev"
    and bw: "\<And>t. is_scaled t \<Longrightarrow> P (Backward t)"
  shows "fail_stop F P A (o1_body F m opt s x)"
  unfolding o1_body_def
  apply (intro fail_stop_case_prod)
  apply (rule fail_stop_andthen)
   apply (rule fail_stop_scope [OF ord], assumption, assumption)
  apply (rule fail_stop_andthen_val [where Q = is_scaled])
    apply (rule fail_stop_scale [OF ord], assumption, assumption)
   apply (erule scale_Inr)
  apply (intro fail_stop_andthen fail_stop_fw_call)
          apply (simp_all add: ord bw)
  done

lemma fail_stop_o2_body:
  assumes ord: "\<And>ev. \<not> is_backward ev \<Longrightarrow> \<not> is_decorate ev \<Longrightarrow> P ev"
    and bw: "\<And>t. is_scaled t \<Longrightarrow> P (Backward t)"
  shows "fail_stop F P A (o2_body F m opt s x)"
  unfolding o2_body_def
  apply (intro fail_stop_case_prod)
  apply (rule fail_stop_andthen)
   apply (rule fail_stop_scope [OF ord], assumption, assumption)
  apply (rule fail_stop_andthen_val [where Q = is_scaled])
    apply (rule fail_stop_scale [OF ord], assumption, assumption)
   apply (erule scale_Inr)
  apply (intro fail_stop_andthen fail_stop_fw_call)
          apply (simp_all add: ord bw)
  done

lemma fail_stop_accum_body:
  assumes ord: "\<And>ev. \<not> is_backward ev \<Longrightarrow> \<not> is_decorate ev \<Longrightarrow> P ev"
    and bw: "\<And>t. is_scaled t \<Longrightarrow> P (Backward t)"
  shows "fail_stop F P A (accum_body F m opt s x)"
  unfolding accum_body_def
  apply (intro fail_stop_case_prod)
  apply (rule fail_stop_andthen)
   apply (rule fail_stop_scope [OF ord], assumption, assumption)
  apply (rule fail_stop_andthen_val [where Q = is_scaled])
    apply (rule fail_stop_scale [OF ord], assumption, assumption)
   apply (erule scale_Inr)
  apply (intro fail_stop_andthen fail_stop_fw_call fail_stop_if fail_stop_ret)
          apply (simp_all add: ord bw)
  done

lemma fail_stop_baseline_cell:
  assumes ord: "\<And>ev. \<not> is_backward ev \<Longrightarrow> \<not> is_decorate ev \<Longrightarrow> P ev"
    and interp: "A TypeError" "A NameError"
    and bw: "\<And>t. P (Backward t)"
  shows "fail_stop F P A (baseline_cell F p)"
  unfolding baseline_cell_def baseline_loop_def
  by (intro fail_stop_andthen fail_stop_new_SimpleNet fail_stop_new_SGD fail_stop_start_timer
      fail_stop_for_each fail_stop_baseline_body fail_stop_print_loss fail_stop_end_timer)
    (simp_all add: ord bw interp)

lemma fail_stop_o1_cell:
  assumes ord: "\<And>ev. \<not> is_backward ev \<Longrightarrow> \<not> is_decorate ev \<Longrightarrow> P ev"
    and interp: "A TypeError" "A NameError"
    and bw: "\<And>t. is_scaled t \<Longrightarrow> P (Backward t)"
  shows "fail_stop F P A (o1_cell F p)"
  unfolding o1_cell_def o1_loop_def
  by (intro fail_stop_andthen fail_stop_new_SimpleNet fail_stop_new_SGD fail_stop_new_GradScaler
      fail_stop_start_timer fail_stop_for_each fail_stop_o1_body fail_stop_print_loss
      fail_stop_end_timer)
    (simp_all add: ord bw interp)

lemma fail_stop_o2_cell:
  assumes ord: "\<And>ev. \<not> is_backward ev \<Longrightarrow> \<not> is_decorate ev \<Longrightarrow> P ev"
    and interp: "A TypeError" "A NameError"
    and bw: "\<And>t. is_scaled t \<Longrightarrow> P (Backward t)"
    and dec: "\<And>kw. P (Decorate kw)"
  shows "fail_stop F P A (o2_cell F p)"
  unfolding o2_cell_def o2_loop_def
  by (intro fail_stop_andthen fail_stop_case_prod fail_stop_new_SimpleNet fail_stop_new_SGD
      fail_stop_new_GradScaler fail_stop_decorate
      fail_stop_start_timer fail_stop_for_each fail_stop_o2_body fail_stop_print_loss
      fail_stop_end_timer)
    (simp_all add: ord bw dec interp)

lemma fail_stop_accum_cell:
  assumes ord: "\<And>ev. \<not> is_backward ev \<Longrightarrow> \<not> is_decorate ev \<Longrightarrow> P ev"
    and interp: "A TypeError" "A NameError"
    and bw: "\<And>t. is_scaled t \<Longrightarrow> P (Backward t)"
  shows "fail_stop F P A (accum_cell F p)"
  unfolding accum_cell_def accum_loop_def
  by (intro fail_stop_andthen fail_stop_new_SimpleNet fail_stop_new_SGD fail_stop_new_GradScaler
      fail_stop_start_timer fail_stop_for_each fail_stop_accum_body fail_stop_print_loss
      fail_stop_end_timer)
    (simp_all add: ord bw interp)

lemma script_fits: "fits script"
  by (simp add: fits_def script_def list_all_iff nums_batch_def)

lemma script_batches:
  "zip (train_data script) (labels script) =
     map (\<lambda>k. (Randn [512, 4096] k, Randn [512, 4096] (50 + k))) [0..<50]"
  by (simp add: script_def nums_batch_def batch_size_def zip_map_map zip_same_conv_map)

lemma concat_replicate_map:
  "concat (replicate n (concat (map f xs))) = concat (map f (concat (replicate n xs)))"
  by (induction n) simp_all

lemma no_print_baseline_events: "\<not> list_ex is_print (baseline_events m opt (d, l))"
  by (simp add: baseline_events_def forward_calls_def)

lemma no_print_setup: "\<not> list_ex is_print (init_calls i j @ sgd_calls m @ [Time_read])"
  by (simp add: init_calls_def sgd_calls_def)

lemma list_ex_concat_map:
  "list_ex P (concat (map f xs)) \<longleftrightarrow> (\<exists>x \<in> set xs. list_ex P (f x))"
  by (auto simp: list_ex_iff)

section \<open>The baseline cell\<close>

text \<open>
  C6. With the script's parameters and no failure, the baseline cell returns, and the
  events it adds are: the construction of the model and the optimizer and the clock
  reading of \<^verbatim>\<open>start_timer()\<close>; then, for each of the 5 epochs and each of the 50 batches in
  list order (250 iterations), the call of the model with its five layer calls, the loss,
  \<^verbatim>\<open>loss.backward()\<close>, \<^verbatim>\<open>optimizer.step()\<close>, \<^verbatim>\<open>optimizer.clear_grad()\<close>; and only then the
  print of the last loss and the events of \<^verbatim>\<open>end_timer_and_print\<close>. Nothing is printed
  before.
\<close>
theorem baseline_cell_order:
  "baseline_cell no_raise script w =
     (let n = length (trace w);
          model = SimpleNet (net_at n 4096 4096);
          optimizer = SGD (n + 7);
          batches = zip (train_data script) (labels script);
          loop = concat (map (baseline_events model optimizer) (concat (replicate 5 batches)))
      in (Inr (), w\<lparr>start_time := Some (Now (n + 8)),
            loss_var := Some (loss_of model (last batches)),
            trace := trace w @ init_calls 4096 4096 @ sgd_calls model @ [Time_read] @ loop @
              closing_events (loss_of model (last batches)) msg_default (n + 9 + length loop)
                (Now (n + 8))\<rparr>))
   \<and> zip (train_data script) (labels script) =
       map (\<lambda>k. (Randn [512, 4096] k, Randn [512, 4096] (50 + k))) [0..<50]
   \<and> length (concat (replicate 5 (zip (train_data script) (labels script)))) = 250
   \<and> baseline_events m opt (d, l) =
       [Model_call m d] @ forward_calls (net_of m) d @
       [Mse_call (forward_value (net_of m) d) l,
        Backward (MSE (forward_value (net_of m) d) l),
        Step opt,
        Clear_grad opt]
   \<and> \<not> list_ex is_print (init_calls 4096 4096 @ sgd_calls m @ [Time_read] @
          concat (map (baseline_events m opt) bs))"
proof (intro conjI)
  show "baseline_cell no_raise script w =
     (let n = length (trace w);
          model = SimpleNet (net_at n 4096 4096);
          optimizer = SGD (n + 7);
          batches = zip (train_data script) (labels script);
          loop = concat (map (baseline_events model optimizer) (concat (replicate 5 batches)))
      in (Inr (), w\<lparr>start_time := Some (Now (n + 8)),
            loss_var := Some (loss_of model (last batches)),
            trace := trace w @ init_calls 4096 4096 @ sgd_calls model @ [Time_read] @ loop @
              closing_events (loss_of model (last batches)) msg_default (n + 9 + length loop)
                (Now (n + 8))\<rparr>))"
  proof -
    have sizes: "input_size script = 4096" "output_size script = 4096" "epochs script = 5"
      by (simp_all add: script_def)
    show ?thesis
      unfolding baseline_cell_no_raise [OF script_fits] sizes concat_replicate_map ..
  qed
  show "zip (train_data script) (labels script) =
       map (\<lambda>k. (Randn [512, 4096] k, Randn [512, 4096] (50 + k))) [0..<50]"
    by (rule script_batches)
  show "length (concat (replicate 5 (zip (train_data script) (labels script)))) = 250"
    by (simp add: script_batches length_concat sum_list_replicate)
  show "baseline_events m opt (d, l) =
       [Model_call m d] @ forward_calls (net_of m) d @
       [Mse_call (forward_value (net_of m) d) l,
        Backward (MSE (forward_value (net_of m) d) l),
        Step opt,
        Clear_grad opt]"
    by (simp add: baseline_events_def loss_of_def)
  show "\<not> list_ex is_print (init_calls 4096 4096 @ sgd_calls m @ [Time_read] @
          concat (map (baseline_events m opt) bs))"
  proof -
    have "\<not> list_ex is_print (concat (map (baseline_events m opt) bs))"
      unfolding list_ex_concat_map using no_print_baseline_events [of m opt] by auto
    with no_print_setup [of 4096 4096 m] show ?thesis
      by (simp only: list_ex_append append_assoc [symmetric]) simp
  qed
qed

theorem baseline_cell_order_witness:
  "fst (baseline_cell no_raise script \<lparr>start_time = None, loss_var = None, trace = []\<rparr>) = Inr ()
   \<and> start_time (snd (baseline_cell no_raise script \<lparr>start_time = None, loss_var = None, trace = []\<rparr>)) =
       Some (Now 8)
   \<and> take 9 (trace (snd (baseline_cell no_raise script \<lparr>start_time = None, loss_var = None, trace = []\<rparr>))) =
       init_calls 4096 4096 @ sgd_calls (SimpleNet (net_at 0 4096 4096)) @ [Time_read]"
  using baseline_cell_order [of "\<lparr>start_time = None, loss_var = None, trace = []\<rparr>", THEN conjunct1]
  by (simp add: Let_def init_calls_def sgd_calls_def)

section \<open>Steps of gradient accumulation\<close>

lemma update_steps_append: "update_steps (a @ b) = update_steps a @ update_steps b"
  by (simp add: update_steps_def)

lemma update_steps_concat: "update_steps (concat xss) = concat (map update_steps xss)"
  by (induction xss) (simp_all add: update_steps_append, simp add: update_steps_def)

lemma update_steps_amp_events:
  "update_steps (amp_events kw m opt s u (d, l)) =
     [Scale_step, Backward_step] @ (if u then [Minimize_step, Clear_step] else [])"
  by (simp add: update_steps_def amp_events_def forward_calls_def)

lemma update_steps_setup:
  "update_steps (init_calls i j @ sgd_calls m @ scaler_calls @ [Time_read]) = []"
  by (simp add: update_steps_def init_calls_def sgd_calls_def scaler_calls_def)

lemma update_steps_pieces:
  "update_steps (init_calls i j) = []" "update_steps (sgd_calls m) = []"
  "update_steps scaler_calls = []" "update_steps [Time_read] = []"
  "update_steps (decorate_calls m opt) = []"
  by (simp_all add: update_steps_def init_calls_def sgd_calls_def scaler_calls_def
      decorate_calls_def)

lemma new_events_append: "trace w' = trace w @ es \<Longrightarrow> new_events w w' = es"
  by (simp add: new_events_def)

lemma update_steps_closing: "update_steps (closing_events v msg k t0) = []"
  by (simp add: update_steps_def closing_events_def)

lemma map_fst_enumerate_comp: "map (\<lambda>x. f (fst x)) (enumerate n zs) = map f [n..<n + length zs]"
proof -
  have "map (\<lambda>x. f (fst x)) (enumerate n zs) = map f (map fst (enumerate n zs))"
    by (simp only: map_map comp_def)
  then show ?thesis by (simp only: map_fst_enumerate)
qed

lemma tenth_pattern:
  "concat (map (\<lambda>i. [Scale_step, Backward_step] @
       (if (i + 1) mod 10 = 0 then [Minimize_step, Clear_step] else [])) [0..<50]) =
   concat (replicate 5 (concat (replicate 10 [Scale_step, Backward_step]) @
       [Minimize_step, Clear_step]))"
  by code_simp

lemma update_steps_amp_events_pair:
  "update_steps (amp_events kw m opt s u z) =
     [Scale_step, Backward_step] @ (if u then [Minimize_step, Clear_step] else [])"
  by (cases z) (simp only: update_steps_amp_events)

lemma accum_epoch_steps:
  assumes "length zs = 50"
  shows "update_steps (concat (map
       (\<lambda>x. amp_events [] m opt s ((fst x + 1) mod accumulate_batchs_num = 0) (snd x))
       (enumerate 0 zs))) =
     concat (replicate 5 (concat (replicate 10 [Scale_step, Backward_step]) @
       [Minimize_step, Clear_step]))"
proof -
  let ?g = "\<lambda>i. [Scale_step, Backward_step] @
       (if (i + 1) mod 10 = 0 then [Minimize_step, Clear_step] else [])"
  have "update_steps (concat (map
       (\<lambda>x. amp_events [] m opt s ((fst x + 1) mod accumulate_batchs_num = 0) (snd x))
       (enumerate 0 zs))) = concat (map (\<lambda>x. ?g (fst x)) (enumerate 0 zs))"
    by (simp only: update_steps_concat map_map comp_def update_steps_amp_events_pair
        accumulate_batchs_num_def)
  also have "\<dots> = concat (map ?g [0..<0 + length zs])"
    by (rule arg_cong [where f = concat]) (rule map_fst_enumerate_comp [where f = ?g])
  also have "\<dots> = concat (map ?g [0..<50])"
    by (simp add: assms)
  also note tenth_pattern
  finally show ?thesis .
qed

lemma script_batches_length: "length (zip (train_data script) (labels script)) = 50"
  by (simp add: script_batches)

lemma update_steps_replicate:
  "update_steps (concat (replicate n es)) = concat (replicate n (update_steps es))"
  by (induction n) (simp_all add: update_steps_append, simp add: update_steps_def)

section \<open>The gradient-accumulation cell\<close>

text \<open>
  C2. An iteration of the gradient-accumulation loop calls \<^verbatim>\<open>scaler.minimize\<close> and
  \<^verbatim>\<open>optimizer.clear_grad\<close> exactly when \<open>(i + 1) mod 10 = 0\<close>, after its scale and
  backward. With the script's 50 batches, the steps of one epoch are five times: ten
  scale-and-backward pairs, then one minimize and one clear_grad; the whole cell runs
  five such epochs.
\<close>
theorem accum_updates_every_tenth:
  "accumulate_batchs_num = 10
   \<and> (well_shaped (net_of m) d \<longrightarrow>
        accum_body no_raise m opt s (i, (d, l)) w =
          (Inr (), w\<lparr>loss_var := Some (loss_of m (d, l)),
             trace := trace w @ amp_events [] m opt s ((i + 1) mod 10 = 0) (d, l)\<rparr>))
   \<and> update_steps (amp_events kw m opt s u (d, l)) =
        [Scale_step, Backward_step] @ (if u then [Minimize_step, Clear_step] else [])
   \<and> update_steps (concat (map
          (\<lambda>x. amp_events [] m opt s ((fst x + 1) mod 10 = 0) (snd x))
          (enumerate 0 (zip (train_data script) (labels script))))) =
        concat (replicate 5 (concat (replicate 10 [Scale_step, Backward_step]) @
          [Minimize_step, Clear_step]))
   \<and> fst (accum_cell no_raise script w) = Inr ()
   \<and> update_steps (new_events w (snd (accum_cell no_raise script w))) =
        concat (replicate 5 (concat (replicate 5
          (concat (replicate 10 [Scale_step, Backward_step]) @ [Minimize_step, Clear_step]))))"
proof (intro conjI impI)
  show ten: "accumulate_batchs_num = 10"
    by (simp add: accumulate_batchs_num_def)
  show "accum_body no_raise m opt s (i, (d, l)) w =
          (Inr (), w\<lparr>loss_var := Some (loss_of m (d, l)),
             trace := trace w @ amp_events [] m opt s ((i + 1) mod 10 = 0) (d, l)\<rparr>)"
    if "well_shaped (net_of m) d"
    using accum_body_no_raise [OF that, of opt s i l w] by (simp add: ten)
  show "update_steps (amp_events kw m opt s u (d, l)) =
        [Scale_step, Backward_step] @ (if u then [Minimize_step, Clear_step] else [])"
    by (rule update_steps_amp_events)
  show epoch: "update_steps (concat (map
          (\<lambda>x. amp_events [] m opt s ((fst x + 1) mod 10 = 0) (snd x))
          (enumerate 0 (zip (train_data script) (labels script))))) =
        concat (replicate 5 (concat (replicate 10 [Scale_step, Backward_step]) @
          [Minimize_step, Clear_step]))" for m opt s
    using accum_epoch_steps [OF script_batches_length, of m opt s] by (simp add: ten)
  have sizes: "epochs script = 5"
    by (simp add: script_def)
  note cell = accum_cell_no_raise [OF script_fits, of w, unfolded Let_def sizes ten]
  show "fst (accum_cell no_raise script w) = Inr ()"
    by (simp only: cell fst_conv)
  show "update_steps (new_events w (snd (accum_cell no_raise script w))) =
        concat (replicate 5 (concat (replicate 5
          (concat (replicate 10 [Scale_step, Backward_step]) @ [Minimize_step, Clear_step]))))"
  proof -
    let ?n = "length (trace w)"
    let ?m = "SimpleNet (net_at ?n (input_size script) (output_size script))"
    let ?epoch = "concat (map
          (\<lambda>x. amp_events [] ?m (SGD (?n + 7)) (GradScaler (?n + 8)) ((fst x + 1) mod 10 = 0) (snd x))
          (enumerate 0 (zip (train_data script) (labels script))))"
    let ?loop = "concat (replicate 5 ?epoch)"
    have "new_events w (snd (accum_cell no_raise script w)) =
        init_calls (input_size script) (output_size script) @ sgd_calls ?m @ scaler_calls @
        [Time_read] @ ?loop @
        closing_events (loss_of ?m (last (zip (train_data script) (labels script)))) msg_amp
          (?n + 10 + length ?loop) (Now (?n + 9))"
      by (rule new_events_append) (simp add: cell)
    then show ?thesis
      by (simp only: update_steps_append update_steps_pieces update_steps_closing
          update_steps_replicate epoch append_Nil append_Nil2)
  qed
qed

theorem accum_updates_every_tenth_witness:
  "well_shaped (net_of (SimpleNet (net_at 0 2 2))) (Randn [1, 2] 0)
   \<and> update_steps (trace (snd (accum_body no_raise (SimpleNet (net_at 0 2 2)) (SGD 7) (GradScaler 8)
         (9, (Randn [1, 2] 0, Randn [1, 2] 1)) \<lparr>start_time = None, loss_var = None, trace = []\<rparr>))) =
       [Scale_step, Backward_step, Minimize_step, Clear_step]
   \<and> update_steps (trace (snd (accum_body no_raise (SimpleNet (net_at 0 2 2)) (SGD 7) (GradScaler 8)
         (0, (Randn [1, 2] 0, Randn [1, 2] 1)) \<lparr>start_time = None, loss_var = None, trace = []\<rparr>))) =
       [Scale_step, Backward_step]"
proof -
  let ?m = "SimpleNet (net_at 0 2 2)"
  let ?w = "\<lparr>start_time = None, loss_var = None, trace = []\<rparr>"
  have ws: "well_shaped (net_of ?m) (Randn [1, 2] 0)"
    by (simp add: well_shaped_net_at)
  note inst = accum_updates_every_tenth [where m = ?m and d = "Randn [1, 2] 0" and opt = "SGD 7"
      and s = "GradScaler 8" and l = "Randn [1, 2] 1" and w = ?w,
      THEN conjunct2, THEN conjunct1, rule_format, OF ws]
  from inst [where i = 9] have 1:
    "update_steps (trace (snd (accum_body no_raise ?m (SGD 7) (GradScaler 8)
         (9, (Randn [1, 2] 0, Randn [1, 2] 1)) ?w))) =
       [Scale_step, Backward_step, Minimize_step, Clear_step]"
    by (simp add: update_steps_amp_events)
  from inst [where i = 0] have 2:
    "update_steps (trace (snd (accum_body no_raise ?m (SGD 7) (GradScaler 8)
         (0, (Randn [1, 2] 0, Randn [1, 2] 1)) ?w))) =
       [Scale_step, Backward_step]"
    by (simp add: update_steps_amp_events)
  from ws 1 2 show ?thesis by blast
qed

lemma script_sizes:
  "input_size script = 4096" "output_size script = 4096" "epochs script = 5"
  by (simp_all add: script_def)

lemma accumulate_ten: "accumulate_batchs_num = 10"
  by (simp add: accumulate_batchs_num_def)

section \<open>The AMP cells\<close>

text \<open>
  C3, as the claim states it, fails on the gradient-accumulation loop: its first batch
  (index 0) of the script's data, run from the state in which the loop starts, returns
  after scale and backward without a call of \<^verbatim>\<open>scaler.minimize\<close>.
\<close>
theorem amp_minimize_every_batch_counterexample:
  "fst (accum_body no_raise (SimpleNet (net_at 0 4096 4096)) (SGD 7) (GradScaler 8)
        (0, (Randn [512, 4096] 0, Randn [512, 4096] 50))
        \<lparr>start_time = Some (Now 9), loss_var = None,
         trace = init_calls 4096 4096 @ sgd_calls (SimpleNet (net_at 0 4096 4096)) @
           scaler_calls @ [Time_read]\<rparr>) = Inr ()
   \<and> update_steps (new_events
        \<lparr>start_time = Some (Now 9), loss_var = None,
         trace = init_calls 4096 4096 @ sgd_calls (SimpleNet (net_at 0 4096 4096)) @
           scaler_calls @ [Time_read]\<rparr>
        (snd (accum_body no_raise (SimpleNet (net_at 0 4096 4096)) (SGD 7) (GradScaler 8)
        (0, (Randn [512, 4096] 0, Randn [512, 4096] 50))
        \<lparr>start_time = Some (Now 9), loss_var = None,
         trace = init_calls 4096 4096 @ sgd_calls (SimpleNet (net_at 0 4096 4096)) @
           scaler_calls @ [Time_read]\<rparr>))) = [Scale_step, Backward_step]
   \<and> \<not> list_ex is_minimize (new_events
        \<lparr>start_time = Some (Now 9), loss_var = None,
         trace = init_calls 4096 4096 @ sgd_calls (SimpleNet (net_at 0 4096 4096)) @
           scaler_calls @ [Time_read]\<rparr>
        (snd (accum_body no_raise (SimpleNet (net_at 0 4096 4096)) (SGD 7) (GradScaler 8)
        (0, (Randn [512, 4096] 0, Randn [512, 4096] 50))
        \<lparr>start_time = Some (Now 9), loss_var = None,
         trace = init_calls 4096 4096 @ sgd_calls (SimpleNet (net_at 0 4096 4096)) @
           scaler_calls @ [Time_read]\<rparr>)))"
proof -
  let ?m = "SimpleNet (net_at 0 4096 4096)"
  let ?w = "\<lparr>start_time = Some (Now 9), loss_var = None,
         trace = init_calls 4096 4096 @ sgd_calls ?m @ scaler_calls @ [Time_read]\<rparr>"
  let ?d = "Randn [512, 4096] 0" and ?l = "Randn [512, 4096] 50"
  have ws: "well_shaped (net_of ?m) ?d"
    by (simp add: well_shaped_net_at)
  have run: "accum_body no_raise ?m (SGD 7) (GradScaler 8) (0, (?d, ?l)) ?w =
      (Inr (), ?w\<lparr>loss_var := Some (loss_of ?m (?d, ?l)),
         trace := trace ?w @ amp_events [] ?m (SGD 7) (GradScaler 8) False (?d, ?l)\<rparr>)"
    using accum_body_no_raise [OF ws, of "SGD 7" "GradScaler 8" 0 ?l ?w]
    by (simp add: accumulate_ten)
  have ne: "new_events ?w (snd (accum_body no_raise ?m (SGD 7) (GradScaler 8) (0, (?d, ?l)) ?w)) =
      amp_events [] ?m (SGD 7) (GradScaler 8) False (?d, ?l)"
    by (rule new_events_append) (simp add: run)
  have a: "fst (accum_body no_raise ?m (SGD 7) (GradScaler 8) (0, (?d, ?l)) ?w) = Inr ()"
    by (simp only: run fst_conv)
  have b: "update_steps (amp_events [] ?m (SGD 7) (GradScaler 8) False (?d, ?l)) =
      [Scale_step, Backward_step]"
    by (simp add: update_steps_amp_events)
  have c: "\<not> list_ex is_minimize (amp_events [] ?m (SGD 7) (GradScaler 8) False (?d, ?l))"
    by (simp add: amp_events_def forward_calls_def)
  from a b c show ?thesis
    by (simp only: ne) simp
qed


lemma o1_cell_script:
  "o1_cell no_raise script w =
     (let n = length (trace w);
          model = SimpleNet (net_at n 4096 4096);
          optimizer = SGD (n + 7);
          scaler = GradScaler (n + 8);
          batches = zip (train_data script) (labels script);
          loop = concat (replicate 5 (concat (map (amp_events [] model optimizer scaler True) batches)))
      in (Inr (), w\<lparr>start_time := Some (Now (n + 9)),
            loss_var := Some (loss_of model (last batches)),
            trace := trace w @ init_calls 4096 4096 @ sgd_calls model @ scaler_calls @
              [Time_read] @ loop @
              closing_events (loss_of model (last batches)) msg_o1 (n + 10 + length loop)
                (Now (n + 9))\<rparr>))"
  by (simp only: o1_cell_no_raise [OF script_fits] script_sizes Let_def)

lemma o2_cell_script:
  "o2_cell no_raise script w =
     (let n = length (trace w);
          model0 = SimpleNet (net_at n 4096 4096);
          model = Decorated model0;
          optimizer = Decorated_opt (SGD (n + 7));
          scaler = GradScaler (n + 8);
          batches = zip (train_data script) (labels script);
          loop = concat (replicate 5
            (concat (map (amp_events o2_kwargs model optimizer scaler True) batches)))
      in (Inr (), w\<lparr>start_time := Some (Now (n + 10)),
            loss_var := Some (loss_of model (last batches)),
            trace := trace w @ init_calls 4096 4096 @ sgd_calls model0 @ scaler_calls @
              decorate_calls model0 (SGD (n + 7)) @
              [Time_read] @ loop @
              closing_events (loss_of model (last batches)) msg_o2 (n + 11 + length loop)
                (Now (n + 10))\<rparr>))"
  by (simp only: o2_cell_no_raise [OF script_fits] script_sizes Let_def)

lemma accum_cell_script:
  "accum_cell no_raise script w =
     (let n = length (trace w);
          model = SimpleNet (net_at n 4096 4096);
          optimizer = SGD (n + 7);
          scaler = GradScaler (n + 8);
          batches = zip (train_data script) (labels script);
          loop = concat (replicate 5 (concat (map
            (\<lambda>x. amp_events [] model optimizer scaler ((fst x + 1) mod 10 = 0) (snd x))
            (enumerate 0 batches))))
      in (Inr (), w\<lparr>start_time := Some (Now (n + 9)),
            loss_var := Some (loss_of model (last batches)),
            trace := trace w @ init_calls 4096 4096 @ sgd_calls model @ scaler_calls @
              [Time_read] @ loop @
              closing_events (loss_of model (last batches)) msg_amp (n + 10 + length loop)
                (Now (n + 9))\<rparr>))"
  by (simp only: accum_cell_no_raise [OF script_fits] script_sizes accumulate_ten Let_def)

lemma amp_events_unfold:
  "amp_events kw m opt s u (d, l) =
       [AutoCast_enter kw, Model_call m d] @ forward_calls (net_of m) d @
       [Mse_call (forward_value (net_of m) d) l,
        AutoCast_exit,
        Scale s (MSE (forward_value (net_of m) d) l),
        Backward (Scaled (scaler_id s) (MSE (forward_value (net_of m) d) l))] @
       (if u then
          [Minimize s opt (Scaled (scaler_id s) (MSE (forward_value (net_of m) d) l)),
           Clear_grad opt]
        else [])"
  by (simp add: amp_events_def loss_of_def)

text \<open>
  C3, amended. With the script's parameters and no failure, each AMP cell builds its
  \<^verbatim>\<open>GradScaler\<close> with \<^verbatim>\<open>init_loss_scaling=1024\<close>, and every iteration computes output and
  loss between entering and leaving the auto-cast scope, then calls \<^verbatim>\<open>scaler.scale(loss)\<close>
  and backward on the scaled loss. \<^verbatim>\<open>scaler.minimize(optimizer, scaled)\<close> and
  \<^verbatim>\<open>clear_grad\<close> follow on every batch in the O1 and O2 cells, and in the
  gradient-accumulation cell on the batches with \<open>(i + 1) mod 10 = 0\<close>. Whatever the
  framework does, every backward call of an AMP cell is on a scaled tensor.
\<close>
theorem amp_cells_scale_backward:
  "o1_cell no_raise script w =
     (let n = length (trace w);
          model = SimpleNet (net_at n 4096 4096);
          optimizer = SGD (n + 7);
          scaler = GradScaler (n + 8);
          batches = zip (train_data script) (labels script);
          loop = concat (replicate 5 (concat (map (amp_events [] model optimizer scaler True) batches)))
      in (Inr (), w\<lparr>start_time := Some (Now (n + 9)),
            loss_var := Some (loss_of model (last batches)),
            trace := trace w @ init_calls 4096 4096 @ sgd_calls model @ scaler_calls @
              [Time_read] @ loop @
              closing_events (loss_of model (last batches)) msg_o1 (n + 10 + length loop)
                (Now (n + 9))\<rparr>))
   \<and> o2_cell no_raise script w =
     (let n = length (trace w);
          model0 = SimpleNet (net_at n 4096 4096);
          model = Decorated model0;
          optimizer = Decorated_opt (SGD (n + 7));
          scaler = GradScaler (n + 8);
          batches = zip (train_data script) (labels script);
          loop = concat (replicate 5
            (concat (map (amp_events o2_kwargs model optimizer scaler True) batches)))
      in (Inr (), w\<lparr>start_time := Some (Now (n + 10)),
            loss_var := Some (loss_of model (last batches)),
            trace := trace w @ init_calls 4096 4096 @ sgd_calls model0 @ scaler_calls @
              decorate_calls model0 (SGD (n + 7)) @
              [Time_read] @ loop @
              closing_events (loss_of model (last batches)) msg_o2 (n + 11 + length loop)
                (Now (n + 10))\<rparr>))
   \<and> accum_cell no_raise script w =
     (let n = length (trace w);
          model = SimpleNet (net_at n 4096 4096);
          optimizer = SGD (n + 7);
          scaler = GradScaler (n + 8);
          batches = zip (train_data script) (labels script);
          loop = concat (replicate 5 (concat (map
            (\<lambda>x. amp_events [] model optimizer scaler ((fst x + 1) mod 10 = 0) (snd x))
            (enumerate 0 batches))))
      in (Inr (), w\<lparr>start_time := Some (Now (n + 9)),
            loss_var := Some (loss_of model (last batches)),
            trace := trace w @ init_calls 4096 4096 @ sgd_calls model @ scaler_calls @
              [Time_read] @ loop @
              closing_events (loss_of model (last batches)) msg_amp (n + 10 + length loop)
                (Now (n + 9))\<rparr>))
   \<and> scaler_calls = [New_GradScaler [(''init_loss_scaling'', Int_arg 1024)]]
   \<and> amp_events kw m opt s u (d, l) =
       [AutoCast_enter kw, Model_call m d] @ forward_calls (net_of m) d @
       [Mse_call (forward_value (net_of m) d) l,
        AutoCast_exit,
        Scale s (MSE (forward_value (net_of m) d) l),
        Backward (Scaled (scaler_id s) (MSE (forward_value (net_of m) d) l))] @
       (if u then
          [Minimize s opt (Scaled (scaler_id s) (MSE (forward_value (net_of m) d) l)),
           Clear_grad opt]
        else [])
   \<and> fail_stop F backward_scaled interpreter_error (o1_cell F p)
   \<and> fail_stop F backward_scaled interpreter_error (o2_cell F p)
   \<and> fail_stop F backward_scaled interpreter_error (accum_cell F p)"
proof -
  have ord: "\<And>ev. \<not> is_backward ev \<Longrightarrow> \<not> is_decorate ev \<Longrightarrow> backward_scaled ev"
    by (case_tac ev) simp_all
  have dec: "\<And>kw. backward_scaled (Decorate kw)"
    by simp
  have bw: "\<And>t. is_scaled t \<Longrightarrow> backward_scaled (Backward t)"
    by simp
  note cells = o1_cell_script [of w] o2_cell_script [of w] accum_cell_script [of w]
  have interp: "interpreter_error TypeError" "interpreter_error NameError"
    by simp_all
  note safe = fail_stop_o1_cell [where P = backward_scaled and F = F and p = p, OF ord interp bw]
    fail_stop_o2_cell [where P = backward_scaled and F = F and p = p, OF ord interp bw dec]
    fail_stop_accum_cell [where P = backward_scaled and F = F and p = p, OF ord interp bw]
  have sc: "scaler_calls = [New_GradScaler [(''init_loss_scaling'', Int_arg 1024)]]"
    by (simp add: scaler_calls_def)
  from cells sc amp_events_unfold [of kw m opt s u d l] safe show ?thesis
    by (intro conjI)
qed

theorem amp_cells_scale_backward_witness:
  "fst (o1_cell no_raise script \<lparr>start_time = None, loss_var = None, trace = []\<rparr>) = Inr ()
   \<and> fst (o2_cell no_raise script \<lparr>start_time = None, loss_var = None, trace = []\<rparr>) = Inr ()
   \<and> fst (accum_cell no_raise script \<lparr>start_time = None, loss_var = None, trace = []\<rparr>) = Inr ()
   \<and> take 10 (trace (snd (o1_cell no_raise script \<lparr>start_time = None, loss_var = None, trace = []\<rparr>))) =
       init_calls 4096 4096 @ sgd_calls (SimpleNet (net_at 0 4096 4096)) @ scaler_calls @ [Time_read]"
proof -
  let ?w = "\<lparr>start_time = None, loss_var = None, trace = []\<rparr>"
  note inst = amp_cells_scale_backward [where w = ?w]
  from inst [THEN conjunct1]
  have 1: "fst (o1_cell no_raise script ?w) = Inr ()"
    by (simp add: Let_def)
  from inst [THEN conjunct2, THEN conjunct1]
  have 2: "fst (o2_cell no_raise script ?w) = Inr ()"
    by (simp add: Let_def)
  from inst [THEN conjunct2, THEN conjunct2, THEN conjunct1]
  have 3: "fst (accum_cell no_raise script ?w) = Inr ()"
    by (simp add: Let_def)
  from inst [THEN conjunct1]
  have 4: "take 10 (trace (snd (o1_cell no_raise script ?w))) =
       init_calls 4096 4096 @ sgd_calls (SimpleNet (net_at 0 4096 4096)) @ scaler_calls @ [Time_read]"
    by (simp add: Let_def init_calls_def sgd_calls_def scaler_calls_def)
  from 1 2 3 4 show ?thesis by blast
qed

lemma no_decorate_amp_events: "filter is_decorate (amp_events kw m opt s u z) = []"
  by (cases z) (simp add: amp_events_def forward_calls_def)

lemma no_decorate_pieces:
  "filter is_decorate (init_calls i j) = []" "filter is_decorate (sgd_calls m) = []"
  "filter is_decorate scaler_calls = []" "filter is_decorate (closing_events v msg k t0) = []"
  by (simp_all add: init_calls_def sgd_calls_def scaler_calls_def closing_events_def)

lemma filter_decorate_calls: "filter is_decorate (decorate_calls m opt) = decorate_calls m opt"
  by (simp add: decorate_calls_def)

lemma no_decorate_loop:
  "filter is_decorate (concat (replicate n (concat (map (amp_events kw m opt s u) zs)))) = []"
  by (simp add: filter_concat comp_def no_decorate_amp_events)

section \<open>Only the O2 cell decorates\<close>

text \<open>
  C4. With the script's parameters and no failure, the O2 cell calls
  \<^verbatim>\<open>paddle.amp.decorate(models=model, optimizers=optimizer, level='O2', master_weight=None,
  save_dtype=None)\<close> exactly once, after building the scaler and before the clock reading of
  \<^verbatim>\<open>start_timer()\<close>; every later use of \<^verbatim>\<open>model\<close> and \<^verbatim>\<open>optimizer\<close> is a use of the two
  results of that call, and every auto-cast scope is entered with \<^verbatim>\<open>enable=True,
  custom_white_list=None, custom_black_list=None, level='O2'\<close>. Whatever the framework does
  and whatever the parameters, the baseline cell, the O1 cell and the gradient-accumulation
  cell never call decorate.
\<close>
theorem only_o2_decorates:
  "o2_cell no_raise script w =
     (let n = length (trace w);
          model0 = SimpleNet (net_at n 4096 4096);
          model = Decorated model0;
          optimizer = Decorated_opt (SGD (n + 7));
          scaler = GradScaler (n + 8);
          batches = zip (train_data script) (labels script);
          loop = concat (replicate 5
            (concat (map (amp_events o2_kwargs model optimizer scaler True) batches)))
      in (Inr (), w\<lparr>start_time := Some (Now (n + 10)),
            loss_var := Some (loss_of model (last batches)),
            trace := trace w @ init_calls 4096 4096 @ sgd_calls model0 @ scaler_calls @
              decorate_calls model0 (SGD (n + 7)) @
              [Time_read] @ loop @
              closing_events (loss_of model (last batches)) msg_o2 (n + 11 + length loop)
                (Now (n + 10))\<rparr>))
   \<and> decorate_calls m opt =
       [Decorate
          [(''models'', Model_arg m), (''optimizers'', Opt_arg opt),
           (''level'', Str_arg ''O2''), (''master_weight'', None_arg), (''save_dtype'', None_arg)]]
   \<and> o2_kwargs =
       [(''enable'', True_arg), (''custom_white_list'', None_arg),
        (''custom_black_list'', None_arg), (''level'', Str_arg ''O2'')]
   \<and> filter is_decorate (new_events w (snd (o2_cell no_raise script w))) =
       decorate_calls (SimpleNet (net_at (length (trace w)) 4096 4096)) (SGD (length (trace w) + 7))
   \<and> fail_stop F (\<lambda>ev. \<not> is_decorate ev) interpreter_error (baseline_cell F p)
   \<and> fail_stop F (\<lambda>ev. \<not> is_decorate ev) interpreter_error (o1_cell F p)
   \<and> fail_stop F (\<lambda>ev. \<not> is_decorate ev) interpreter_error (accum_cell F p)"
proof -
  let ?n = "length (trace w)"
  let ?base = "SimpleNet (net_at ?n 4096 4096)"
  let ?zs = "zip (train_data script) (labels script)"
  let ?loop = "concat (replicate 5 (concat (map
      (amp_events o2_kwargs (Decorated ?base) (Decorated_opt (SGD (?n + 7))) (GradScaler (?n + 8)) True)
      ?zs)))"
  have dc: "decorate_calls m opt =
       [Decorate
          [(''models'', Model_arg m), (''optimizers'', Opt_arg opt),
           (''level'', Str_arg ''O2''), (''master_weight'', None_arg), (''save_dtype'', None_arg)]]"
    by (simp add: decorate_calls_def)
  have kw: "o2_kwargs =
       [(''enable'', True_arg), (''custom_white_list'', None_arg),
        (''custom_black_list'', None_arg), (''level'', Str_arg ''O2'')]"
    by (simp add: o2_kwargs_def)
  have ne: "new_events w (snd (o2_cell no_raise script w)) =
      init_calls 4096 4096 @ sgd_calls ?base @ scaler_calls @ decorate_calls ?base (SGD (?n + 7)) @
      [Time_read] @ ?loop @
      closing_events (loss_of (Decorated ?base) (last ?zs)) msg_o2 (?n + 11 + length ?loop)
        (Now (?n + 10))"
    by (rule new_events_append) (simp add: o2_cell_script Let_def)
  have once: "filter is_decorate (new_events w (snd (o2_cell no_raise script w))) =
       decorate_calls ?base (SGD (?n + 7))"
    by (simp only: ne filter_append no_decorate_pieces no_decorate_loop filter_decorate_calls
        append_Nil append_Nil2) simp
  have ord: "\<And>ev. \<not> is_backward ev \<Longrightarrow> \<not> is_decorate ev \<Longrightarrow> \<not> is_decorate ev"
    by simp
  have bw: "\<And>t. \<not> is_decorate (Backward t)"
    by simp
  have interp: "interpreter_error TypeError" "interpreter_error NameError"
    by simp_all
  note safe =
    fail_stop_baseline_cell [where P = "\<lambda>ev. \<not> is_decorate ev" and F = F and p = p, OF ord interp bw]
    fail_stop_o1_cell [where P = "\<lambda>ev. \<not> is_decorate ev" and F = F and p = p, OF ord interp bw]
    fail_stop_accum_cell [where P = "\<lambda>ev. \<not> is_decorate ev" and F = F and p = p, OF ord interp bw]
  from o2_cell_script [of w] dc kw once safe show ?thesis
    by (intro conjI)
qed

theorem only_o2_decorates_witness:
  "fst (o2_cell no_raise script \<lparr>start_time = None, loss_var = None, trace = []\<rparr>) = Inr ()
   \<and> take 11 (trace (snd (o2_cell no_raise script \<lparr>start_time = None, loss_var = None, trace = []\<rparr>))) =
       init_calls 4096 4096 @ sgd_calls (SimpleNet (net_at 0 4096 4096)) @ scaler_calls @
       decorate_calls (SimpleNet (net_at 0 4096 4096)) (SGD 7) @ [Time_read]"
proof -
  let ?w = "\<lparr>start_time = None, loss_var = None, trace = []\<rparr>"
  note inst = only_o2_decorates [where w = ?w, THEN conjunct1]
  from inst have 1: "fst (o2_cell no_raise script ?w) = Inr ()"
    by (simp add: Let_def)
  from inst have 2: "take 11 (trace (snd (o2_cell no_raise script ?w))) =
       init_calls 4096 4096 @ sgd_calls (SimpleNet (net_at 0 4096 4096)) @ scaler_calls @
       decorate_calls (SimpleNet (net_at 0 4096 4096)) (SGD 7) @ [Time_read]"
    by (simp add: Let_def init_calls_def sgd_calls_def scaler_calls_def decorate_calls_def)
  from 1 2 show ?thesis by blast
qed

lemma fail_stop_baseline_loop:
  assumes ord: "\<And>ev. \<not> is_backward ev \<Longrightarrow> \<not> is_decorate ev \<Longrightarrow> P ev"
    and bw: "\<And>t. P (Backward t)"
  shows "fail_stop F P A (baseline_loop F p m opt)"
  unfolding baseline_loop_def
  by (intro fail_stop_for_each fail_stop_baseline_body) (simp_all add: ord bw)

lemma fail_stop_o1_loop:
  assumes ord: "\<And>ev. \<not> is_backward ev \<Longrightarrow> \<not> is_decorate ev \<Longrightarrow> P ev"
    and bw: "\<And>t. is_scaled t \<Longrightarrow> P (Backward t)"
  shows "fail_stop F P A (o1_loop F p m opt s)"
  unfolding o1_loop_def
  by (intro fail_stop_for_each fail_stop_o1_body) (simp_all add: ord bw)

lemma fail_stop_o2_loop:
  assumes ord: "\<And>ev. \<not> is_backward ev \<Longrightarrow> \<not> is_decorate ev \<Longrightarrow> P ev"
    and bw: "\<And>t. is_scaled t \<Longrightarrow> P (Backward t)"
  shows "fail_stop F P A (o2_loop F p m opt s)"
  unfolding o2_loop_def
  by (intro fail_stop_for_each fail_stop_o2_body) (simp_all add: ord bw)

lemma fail_stop_accum_loop:
  assumes ord: "\<And>ev. \<not> is_backward ev \<Longrightarrow> \<not> is_decorate ev \<Longrightarrow> P ev"
    and bw: "\<And>t. is_scaled t \<Longrightarrow> P (Backward t)"
  shows "fail_stop F P A (accum_loop F p m opt s)"
  unfolding accum_loop_def
  by (intro fail_stop_for_each fail_stop_accum_body) (simp_all add: ord bw)

lemma fail_stop_Inl:
  assumes "fail_stop F P A p" and "p w = (Inl e, w')"
  shows "stops F (length (trace w)) (new_events w w') e \<or>
         (A e \<and> clean F (length (trace w)) (new_events w w'))"
  using fail_stopD [OF assms(1), where w = w] assms(2)
  by (simp add: outcome_ok_def)

lemma fail_stop_Inr:
  assumes "fail_stop F P A p" and "p w = (Inr v, w')"
  shows "clean F (length (trace w)) (new_events w w')"
  using fail_stopD [OF assms(1), where w = w] assms(2)
  by (simp add: outcome_ok_def)

section \<open>Exceptions propagate unchanged\<close>

text \<open>
  C10. No statement of the notebook catches or raises an exception. Whatever the framework
  does, each authored function, loop and cell is fail-stop: if it returns, no call it made
  raised; if it raises \<open>e\<close>, a call it made raised exactly \<open>e\<close>, no later statement ran
  (only auto-cast scopes were left), and nothing was printed afterwards. The only other
  exceptions are the interpreter's own: \<^verbatim>\<open>TypeError\<close> in \<^verbatim>\<open>end_timer_and_print\<close>, and in a
  cell also \<^verbatim>\<open>NameError\<close> at \<^verbatim>\<open>print(loss)\<close>; \<^verbatim>\<open>forward\<close>, \<^verbatim>\<open>__init__\<close>, \<^verbatim>\<open>start_timer\<close> and
  the four loops raise nothing of their own.
\<close>
theorem exceptions_propagate:
  "fail_stop F (\<lambda>ev. True) (\<lambda>e. False) (forward F self x)
   \<and> fail_stop F (\<lambda>ev. True) (\<lambda>e. False) (SimpleNet_init F i j)
   \<and> fail_stop F (\<lambda>ev. True) (\<lambda>e. False) start_timer
   \<and> fail_stop F (\<lambda>ev. True) (\<lambda>e. e = TypeError) (end_timer_and_print msg)
   \<and> fail_stop F (\<lambda>ev. True) (\<lambda>e. False) (baseline_loop F p m opt)
   \<and> fail_stop F (\<lambda>ev. True) (\<lambda>e. False) (o1_loop F p m opt s)
   \<and> fail_stop F (\<lambda>ev. True) (\<lambda>e. False) (o2_loop F p m opt s)
   \<and> fail_stop F (\<lambda>ev. True) (\<lambda>e. False) (accum_loop F p m opt s)
   \<and> fail_stop F (\<lambda>ev. True) interpreter_error (baseline_cell F p)
   \<and> fail_stop F (\<lambda>ev. True) interpreter_error (o1_cell F p)
   \<and> fail_stop F (\<lambda>ev. True) interpreter_error (o2_cell F p)
   \<and> fail_stop F (\<lambda>ev. True) interpreter_error (accum_cell F p)
   \<and> (forward F self x w = (Inl e, w') \<longrightarrow> stops F (length (trace w)) (new_events w w') e)
   \<and> (o1_cell F p v = (Inl e, v') \<longrightarrow>
        stops F (length (trace v)) (new_events v v') e \<or>
        (interpreter_error e \<and> clean F (length (trace v)) (new_events v v')))
   \<and> (o1_cell F p v = (Inr u, v') \<longrightarrow> clean F (length (trace v)) (new_events v v'))"
proof -
  have interp: "interpreter_error TypeError" "interpreter_error NameError"
    by simp_all
  have fwd: "fail_stop F (\<lambda>ev. True) (\<lambda>e. False) (forward F self x)" for x
    by (rule fail_stop_forward) simp
  have o1: "fail_stop F (\<lambda>ev. True) interpreter_error (o1_cell F p)"
    by (rule fail_stop_o1_cell) (simp_all add: interp)
  have 1: "fail_stop F (\<lambda>ev. True) (\<lambda>e. False) (SimpleNet_init F i j)"
    by (rule fail_stop_SimpleNet_init) simp
  have 2: "fail_stop F (\<lambda>ev. True) (\<lambda>e. False) start_timer"
    by (rule fail_stop_start_timer) simp
  have 3: "fail_stop F (\<lambda>ev. True) (\<lambda>e. e = TypeError) (end_timer_and_print msg)"
    by (rule fail_stop_end_timer) simp_all
  have 4: "fail_stop F (\<lambda>ev. True) (\<lambda>e. False) (baseline_loop F p m opt)"
    by (rule fail_stop_baseline_loop) simp_all
  have 5: "fail_stop F (\<lambda>ev. True) (\<lambda>e. False) (o1_loop F p m opt s)"
    by (rule fail_stop_o1_loop) simp_all
  have 6: "fail_stop F (\<lambda>ev. True) (\<lambda>e. False) (o2_loop F p m opt s)"
    by (rule fail_stop_o2_loop) simp_all
  have 7: "fail_stop F (\<lambda>ev. True) (\<lambda>e. False) (accum_loop F p m opt s)"
    by (rule fail_stop_accum_loop) simp_all
  have 8: "fail_stop F (\<lambda>ev. True) interpreter_error (baseline_cell F p)"
    by (rule fail_stop_baseline_cell) (simp_all add: interp)
  have 9: "fail_stop F (\<lambda>ev. True) interpreter_error (o2_cell F p)"
    by (rule fail_stop_o2_cell) (simp_all add: interp)
  have 10: "fail_stop F (\<lambda>ev. True) interpreter_error (accum_cell F p)"
    by (rule fail_stop_accum_cell) (simp_all add: interp)
  have 11: "forward F self x w = (Inl e, w') \<longrightarrow> stops F (length (trace w)) (new_events w w') e"
    using fail_stop_Inl [OF fwd, of x w e w'] by simp
  have 12: "o1_cell F p v = (Inl e, v') \<longrightarrow>
        stops F (length (trace v)) (new_events v v') e \<or>
        (interpreter_error e \<and> clean F (length (trace v)) (new_events v v'))"
    using fail_stop_Inl [OF o1, of v e v'] by simp
  have 13: "o1_cell F p v = (Inr u, v') \<longrightarrow> clean F (length (trace v)) (new_events v v')"
    using fail_stop_Inr [OF o1, of v u v'] by simp
  from fwd [of x] 1 2 3 4 5 6 7 8 o1 9 10 11 12 13 show ?thesis
    by (intro conjI)
qed

theorem exceptions_propagate_witness:
  "fst (o1_cell (\<lambda>k ev. if k = 12 then Some (FrameworkError 7) else None)
       \<lparr>epochs = 1, input_size = 2, output_size = 2,
        train_data = [Randn [1, 2] 0], labels = [Randn [1, 2] 1]\<rparr>
       \<lparr>start_time = None, loss_var = None, trace = []\<rparr>) = Inl (FrameworkError 7)
   \<and> stops (\<lambda>k ev. if k = 12 then Some (FrameworkError 7) else None) 0
       (trace (snd (o1_cell (\<lambda>k ev. if k = 12 then Some (FrameworkError 7) else None)
       \<lparr>epochs = 1, input_size = 2, output_size = 2,
        train_data = [Randn [1, 2] 0], labels = [Randn [1, 2] 1]\<rparr>
       \<lparr>start_time = None, loss_var = None, trace = []\<rparr>))) (FrameworkError 7)
   \<and> length (trace (snd (o1_cell (\<lambda>k ev. if k = 12 then Some (FrameworkError 7) else None)
       \<lparr>epochs = 1, input_size = 2, output_size = 2,
        train_data = [Randn [1, 2] 0], labels = [Randn [1, 2] 1]\<rparr>
       \<lparr>start_time = None, loss_var = None, trace = []\<rparr>))) = 14"
proof -
  let ?F = "\<lambda>(k::nat) (ev::event). if k = 12 then Some (FrameworkError 7) else None"
  let ?p = "\<lparr>epochs = 1, input_size = 2, output_size = 2,
        train_data = [Randn [1, 2] 0], labels = [Randn [1, 2] 1]\<rparr>"
  let ?w = "\<lparr>start_time = None, loss_var = None, trace = []\<rparr>"
  let ?r = "o1_cell ?F ?p ?w"
  have a: "fst ?r = Inl (FrameworkError 7)"
    by code_simp
  have b: "length (trace (snd ?r)) = 14"
    by code_simp
  from a have run: "?r = (Inl (FrameworkError 7), snd ?r)"
    by (cases ?r) simp
  have "stops ?F (length (trace ?w)) (new_events ?w (snd ?r)) (FrameworkError 7) \<or>
        (interpreter_error (FrameworkError 7) \<and>
         clean ?F (length (trace ?w)) (new_events ?w (snd ?r)))"
    using exceptions_propagate [where F = ?F and p = ?p and v = ?w and e = "FrameworkError 7"
        and v' = "snd ?r"] run
    by blast
  then have c: "stops ?F 0 (trace (snd ?r)) (FrameworkError 7)"
    by (simp add: new_events_def)
  from a b c show ?thesis by blast
qed

end
